theory Spec2Isabelle
  imports Main
begin

section \<open>JavaScript values used by the Feishu channel plugin\<close>

text \<open>
  A JavaScript string is a sequence of UTF-16 code units. A code unit is modelled as a
  natural number; \<open>js ''abc''\<close> is the string with the code units of the ASCII text.
\<close>

type_synonym jsstring = "nat list"

abbreviation js :: "string \<Rightarrow> jsstring" where
  "js s \<equiv> map of_char s"

text \<open>
  A JavaScript \<open>Map\<close> keeps its entries in insertion order and has at most one entry per
  key. It is modelled as an association list; \<open>Map_set\<close> overwrites the value of an
  existing key in place and appends a new key at the end, as \<open>Map.prototype.set\<close> does.
\<close>

type_synonym 'v js_map = "(jsstring \<times> 'v) list"

primrec Map_get :: "'v js_map \<Rightarrow> jsstring \<Rightarrow> 'v option" where
  "Map_get [] k = None"
| "Map_get (e # es) k = (if fst e = k then Some (snd e) else Map_get es k)"

definition Map_has :: "'v js_map \<Rightarrow> jsstring \<Rightarrow> bool" where
  "Map_has m k = (Map_get m k \<noteq> None)"

primrec Map_set :: "'v js_map \<Rightarrow> jsstring \<Rightarrow> 'v \<Rightarrow> 'v js_map" where
  "Map_set [] k v = [(k, v)]"
| "Map_set (e # es) k v = (if fst e = k then (k, v) # es else e # Map_set es k v)"

primrec Map_delete :: "'v js_map \<Rightarrow> jsstring \<Rightarrow> 'v js_map" where
  "Map_delete [] k = []"
| "Map_delete (e # es) k = (if fst e = k then es else e # Map_delete es k)"

definition Map_size :: "'v js_map \<Rightarrow> nat" where
  "Map_size m = length m"

text \<open>The keys of a well-formed \<open>Map\<close> are pairwise different.\<close>

definition Map_wf :: "'v js_map \<Rightarrow> bool" where
  "Map_wf m = distinct (map fst m)"

section \<open>gateway.ts: the dedupe cache and the staleness check\<close>

definition MESSAGE_DEDUPE_TTL_MS :: int where
  "MESSAGE_DEDUPE_TTL_MS = 60 * 1000"

definition MESSAGE_EXPIRE_TTL_MS :: int where
  "MESSAGE_EXPIRE_TTL_MS = 30 * 60 * 1000"

text \<open>
  \<open>cleanupDedupeCache\<close> iterates over the entries of \<open>processedMessages\<close> and deletes
  from the map each entry whose age exceeds the TTL. Deleting the entry being visited does
  not disturb a \<open>Map\<close> iteration, so the loop visits the entries the map had at the start.
  The first argument is the value \<open>Date.now()\<close> returned at the head of the function.
\<close>

primrec cleanup_loop :: "int \<Rightarrow> int js_map \<Rightarrow> int js_map \<Rightarrow> int js_map" where
  "cleanup_loop now [] processedMessages = processedMessages"
| "cleanup_loop now (e # es) processedMessages =
     cleanup_loop now es
       (if now - snd e > MESSAGE_DEDUPE_TTL_MS
        then Map_delete processedMessages (fst e) else processedMessages)"

definition cleanupDedupeCache :: "int \<Rightarrow> int js_map \<Rightarrow> int js_map" where
  "cleanupDedupeCache now processedMessages =
     cleanup_loop now processedMessages processedMessages"

text \<open>
  \<open>isDuplicateMessage\<close> reads the clock once when it records a new id (\<open>now_set\<close>) and,
  when the map has grown beyond 100 entries, once more inside the cleanup
  (\<open>now_cleanup\<close>). The result is the returned boolean and the map afterwards.
\<close>

definition isDuplicateMessage ::
  "int \<Rightarrow> int \<Rightarrow> jsstring \<Rightarrow> int js_map \<Rightarrow> bool \<times> int js_map" where
  "isDuplicateMessage now_set now_cleanup messageId processedMessages =
     (if Map_has processedMessages messageId then (True, processedMessages)
      else let pm = Map_set processedMessages messageId now_set in
        (False, if Map_size pm > 100 then cleanupDedupeCache now_cleanup pm else pm))"

text \<open>
  A run of calls of \<open>isDuplicateMessage\<close>, each with its two clock readings and its
  id; the result is the map they leave.
\<close>

fun isDuplicateMessage_calls :: "(int \<times> int \<times> jsstring) list \<Rightarrow> int js_map \<Rightarrow> int js_map" where
  "isDuplicateMessage_calls [] pm = pm"
| "isDuplicateMessage_calls (call # calls) pm =
     isDuplicateMessage_calls calls
       (snd (isDuplicateMessage (fst call) (fst (snd call)) (snd (snd call)) pm))"

text \<open>
  \<open>parseInt(s, 10)\<close> of ECMAScript: leading white space is skipped, one sign is read
  (minus is the code unit 45, plus is 43), then the longest prefix of decimal digits; no
  digit gives \<open>NaN\<close> (here \<open>None\<close>). The
  code units of \<open>StrWhiteSpaceChar\<close> are the white space and line terminator characters.
  The result is the exact integer; the comparison in \<open>isMessageExpired\<close> has the same
  outcome on it as on its nearest double, for every clock value a double holds exactly.
\<close>

definition isStrWhiteSpaceChar :: "nat \<Rightarrow> bool" where
  "isStrWhiteSpaceChar c =
     (c \<in> set [0x9, 0xA, 0xB, 0xC, 0xD, 0x20, 0xA0, 0x1680, 0x2028, 0x2029, 0x202F,
                0x205F, 0x3000, 0xFEFF]
      \<or> (0x2000 \<le> c \<and> c \<le> 0x200A))"

definition isDecimalDigit :: "nat \<Rightarrow> bool" where
  "isDecimalDigit c = (48 \<le> c \<and> c \<le> 57)"

primrec digits_value :: "int \<Rightarrow> jsstring \<Rightarrow> int" where
  "digits_value acc [] = acc"
| "digits_value acc (c # cs) = digits_value (acc * 10 + (int c - 48)) cs"

definition parseInt10 :: "jsstring \<Rightarrow> int option" where
  "parseInt10 inputString =
     (let S = dropWhile isStrWhiteSpaceChar inputString;
          sign = (case S of c # _ \<Rightarrow> if c = 45 then (-1::int) else 1 | [] \<Rightarrow> 1);
          S' = (case S of c # cs \<Rightarrow> if c = 43 \<or> c = 45 then cs else S | [] \<Rightarrow> S);
          Z = takeWhile isDecimalDigit S'
      in if Z = [] then None else Some (sign * digits_value 0 Z))"

text \<open>
  \<open>isMessageExpired\<close>: the argument is \<open>string | undefined\<close>; \<open>!createTimeMs\<close> holds for
  \<open>undefined\<close> and for the empty string. The first argument is what \<open>Date.now()\<close>
  returns.
\<close>

definition isMessageExpired :: "int \<Rightarrow> jsstring option \<Rightarrow> bool" where
  "isMessageExpired now createTimeMs =
     (case createTimeMs of
        None \<Rightarrow> False
      | Some s \<Rightarrow>
          if s = [] then False
          else (case parseInt10 s of
                  None \<Rightarrow> False
                | Some createTime \<Rightarrow> now - createTime > MESSAGE_EXPIRE_TTL_MS))"

section \<open>JavaScript values and \<open>JSON.parse\<close>\<close>

text \<open>
  The values \<open>JSON.parse\<close> can return, and \<open>undefined\<close>. A number is kept as the exact
  decimal the text denotes, \<open>JNum m e\<close> for \<open>m * 10 ^ e\<close>. The members of an object are
  kept in the order of the text; where a key occurs twice the last occurrence is the
  property's value.
\<close>

datatype jsvalue =
    JUndefined
  | JNull
  | JBool bool
  | JNum int int
  | JStr jsstring
  | JArr "jsvalue list"
  | JObj "(jsstring \<times> jsvalue) list"

text \<open>
  A thrown value: an \<open>Error\<close> object with its \<open>name\<close> and \<open>message\<close>, or a thrown
  string. \<open>String_exn\<close> is \<open>String(error)\<close>, for an \<open>Error\<close> what
  \<open>Error.prototype.toString\<close> returns.
\<close>

datatype js_exn = ErrorObject jsstring jsstring | ThrownString jsstring

fun String_exn :: "js_exn \<Rightarrow> jsstring" where
  "String_exn (ThrownString s) = s"
| "String_exn (ErrorObject name msg) =
     (if name = [] then msg else if msg = [] then name else name @ js '': '' @ msg)"

definition SyntaxError :: js_exn where
  "SyntaxError = ErrorObject (js ''SyntaxError'') []"

definition TypeError :: js_exn where
  "TypeError = ErrorObject (js ''TypeError'') []"

text \<open>
  The number a JSON numeral denotes is rounded to the nearest double, ties to even; it is
  the double zero exactly when its magnitude is at most \<open>2 ^ -1075\<close>, half the least
  positive double.
\<close>

definition num_is_zero :: "int \<Rightarrow> int \<Rightarrow> bool" where
  "num_is_zero m e =
     (if 0 \<le> e then m = 0 else \<bar>m\<bar> * 2 ^ 1075 \<le> 10 ^ nat (- e))"

text \<open>\<open>ToBoolean\<close>, as \<open>!v\<close> and \<open>if (v)\<close> apply it.\<close>

fun truthy :: "jsvalue \<Rightarrow> bool" where
  "truthy JUndefined = False"
| "truthy JNull = False"
| "truthy (JBool b) = b"
| "truthy (JNum m e) = (\<not> num_is_zero m e)"
| "truthy (JStr s) = (s \<noteq> [])"
| "truthy (JArr xs) = True"
| "truthy (JObj kvs) = True"

subsection \<open>Tokens\<close>

datatype token =
    TLBrace | TRBrace | TLBracket | TRBracket | TColon | TComma
  | TString jsstring | TNumber int int | TTrue | TFalse | TNull

definition isJSONWhiteSpace :: "nat \<Rightarrow> bool" where
  "isJSONWhiteSpace c = (c = 0x9 \<or> c = 0xA \<or> c = 0xD \<or> c = 0x20)"

definition hex_value :: "nat \<Rightarrow> nat option" where
  "hex_value c =
     (if 48 \<le> c \<and> c \<le> 57 then Some (c - 48)
      else if 65 \<le> c \<and> c \<le> 70 then Some (c - 55)
      else if 97 \<le> c \<and> c \<le> 102 then Some (c - 87)
      else None)"

text \<open>The code unit that the letter after a backslash stands for in a JSON string.\<close>

definition escape_char :: "nat \<Rightarrow> nat option" where
  "escape_char c =
     (if c = 34 then Some 34 else if c = 92 then Some 92 else if c = 47 then Some 47
      else if c = 98 then Some 8 else if c = 102 then Some 12 else if c = 110 then Some 10
      else if c = 114 then Some 13 else if c = 116 then Some 9 else None)"

text \<open>
  \<open>lex_string acc s\<close> reads a JSON string whose opening quote has been read: up to the
  closing quote (code unit 34), decoding the escapes that a backslash (92) starts, the
  letter \<open>u\<close> (117) with four hexadecimal digits among them, and refusing raw control
  characters. It returns the decoded string and the rest of the input.
\<close>

fun lex_string :: "jsstring \<Rightarrow> jsstring \<Rightarrow> (jsstring \<times> jsstring) option" where
  "lex_string acc [] = None"
| "lex_string acc (c # cs) =
     (if c = 34 then Some (rev acc, cs)
      else if c = 92 then
        (case cs of
           [] \<Rightarrow> None
         | e # cs' \<Rightarrow>
             if e = 117 then
               (case cs' of
                  h1 # h2 # h3 # h4 # cs'' \<Rightarrow>
                    (case (hex_value h1, hex_value h2, hex_value h3, hex_value h4) of
                       (Some a, Some b, Some c, Some d) \<Rightarrow>
                         lex_string ((((a * 16 + b) * 16 + c) * 16 + d) # acc) cs''
                     | _ \<Rightarrow> None)
                | _ \<Rightarrow> None)
             else (case escape_char e of
                     None \<Rightarrow> None
                   | Some x \<Rightarrow> lex_string (x # acc) cs'))
      else if c < 32 then None
      else lex_string (c # acc) cs)"

text \<open>
  A JSON number: an optional minus, an integer part without a superfluous leading zero,
  an optional fraction with at least one digit, an optional exponent with at least one
  digit. Each reader returns what it read and the rest of the input.
\<close>

definition lex_int :: "jsstring \<Rightarrow> (jsstring \<times> jsstring) option" where
  "lex_int s =
     (case s of
        [] \<Rightarrow> None
      | c # cs \<Rightarrow>
          if c = 48 then Some ([c], cs)
          else if isDecimalDigit c
            then Some (c # takeWhile isDecimalDigit cs, dropWhile isDecimalDigit cs)
          else None)"

definition lex_frac :: "jsstring \<Rightarrow> (jsstring \<times> jsstring) option" where
  "lex_frac s =
     (case s of
        [] \<Rightarrow> Some ([], s)
      | c # cs \<Rightarrow>
          if c = 46 then
            (if takeWhile isDecimalDigit cs = [] then None
             else Some (takeWhile isDecimalDigit cs, dropWhile isDecimalDigit cs))
          else Some ([], s))"

definition lex_exp :: "jsstring \<Rightarrow> (int \<times> jsstring) option" where
  "lex_exp s =
     (case s of
        [] \<Rightarrow> Some (0, s)
      | c # cs \<Rightarrow>
          if c = 101 \<or> c = 69 then
            (let sg = (case cs of d # _ \<Rightarrow> if d = 45 then (-1::int) else 1 | [] \<Rightarrow> 1);
                 cs1 = (case cs of d # ds \<Rightarrow> if d = 43 \<or> d = 45 then ds else cs | [] \<Rightarrow> cs)
             in if takeWhile isDecimalDigit cs1 = [] then None
                else Some (sg * digits_value 0 (takeWhile isDecimalDigit cs1),
                           dropWhile isDecimalDigit cs1))
          else Some (0, s))"

definition lex_number :: "jsstring \<Rightarrow> ((int \<times> int) \<times> jsstring) option" where
  "lex_number s =
     (let neg = (case s of c # _ \<Rightarrow> c = 45 | [] \<Rightarrow> False);
          s1 = (if neg then tl s else s)
      in case lex_int s1 of
           None \<Rightarrow> None
         | Some (ip, s2) \<Rightarrow>
             (case lex_frac s2 of
                None \<Rightarrow> None
              | Some (fp, s3) \<Rightarrow>
                  (case lex_exp s3 of
                     None \<Rightarrow> None
                   | Some (ex, s4) \<Rightarrow>
                       Some (((if neg then -1 else 1) * digits_value 0 (ip @ fp),
                              ex - int (length fp)), s4))))"

primrec strip_prefix :: "jsstring \<Rightarrow> jsstring \<Rightarrow> jsstring option" where
  "strip_prefix [] s = Some s"
| "strip_prefix (p # ps) s =
     (case s of [] \<Rightarrow> None | c # cs \<Rightarrow> if c = p then strip_prefix ps cs else None)"

text \<open>Every reader consumes input; the tokenizer's termination rests on it.\<close>

lemma strip_prefix_length: "strip_prefix p s = Some rest \<Longrightarrow> length rest \<le> length s"
  by (induction p arbitrary: s) (fastforce split: list.splits if_splits)+

lemma lex_string_length: "lex_string acc s = Some (str, rest) \<Longrightarrow> length rest < length s"
proof (induction s arbitrary: acc rule: length_induct)
  case (1 s)
  note IH = 1(1)[rule_format] and eq = 1(2)
  from eq obtain c cs where s: "s = c # cs" by (cases s) auto
  show ?case
  proof (cases "c = 34")
    case True
    with eq s show ?thesis by simp
  next
    case quote: False
    show ?thesis
    proof (cases "c = 92")
      case False
      with quote eq s have "lex_string (c # acc) cs = Some (str, rest)"
        by (simp split: if_splits)
      from IH[OF _ this] s show ?thesis by simp
    next
      case True
      then obtain e cs' where cs: "cs = e # cs'"
        using eq quote s by (cases cs) auto
      show ?thesis
      proof (cases "e = 117")
        case False
        then obtain x where x: "escape_char e = Some x"
          using eq quote True cs s by (cases "escape_char e") auto
        then have "lex_string (x # acc) cs' = Some (str, rest)"
          using eq quote True cs s False by simp
        from IH[OF _ this] s cs show ?thesis by simp
      next
        case u: True
        then obtain h1 h2 h3 h4 cs'' where h: "cs' = h1 # h2 # h3 # h4 # cs''"
          using eq quote True cs s by (auto split: list.splits)
        then obtain a b c' d where v: "hex_value h1 = Some a" "hex_value h2 = Some b"
            "hex_value h3 = Some c'" "hex_value h4 = Some d"
          using eq quote True cs s u by (auto split: option.splits)
        have "lex_string ((((a * 16 + b) * 16 + c') * 16 + d) # acc) cs'' = Some (str, rest)"
          using eq quote True cs s u h v by simp
        from IH[OF _ this] s cs h show ?thesis by simp
      qed
    qed
  qed
qed

lemma lex_int_length: "lex_int s = Some (ip, rest) \<Longrightarrow> length rest < length s"
  by (auto simp: lex_int_def length_dropWhile_le less_Suc_eq_le split: list.splits if_splits)

lemma lex_frac_length: "lex_frac s = Some (fp, rest) \<Longrightarrow> length rest \<le> length s"
  by (auto simp: lex_frac_def length_dropWhile_le le_SucI split: list.splits if_splits)

lemma lex_exp_length: "lex_exp s = Some (ex, rest) \<Longrightarrow> length rest \<le> length s"
  apply (auto simp: lex_exp_def Let_def split: list.splits if_splits)
   apply (meson length_dropWhile_le le_SucI le_trans)+
  done

lemma lex_number_length:
  assumes "lex_number s = Some (v, rest)"
  shows "length rest < length s"
proof -
  define s1 where "s1 = (if (case s of c # _ \<Rightarrow> c = 45 | [] \<Rightarrow> False) then tl s else s)"
  have s1: "length s1 \<le> length s" by (simp add: s1_def)
  from assms obtain ip s2 fp s3 ex where
    a: "lex_int s1 = Some (ip, s2)" and b: "lex_frac s2 = Some (fp, s3)"
    and c: "lex_exp s3 = Some (ex, rest)"
    unfolding lex_number_def Let_def s1_def[symmetric]
    by (auto split: option.splits)
  from lex_int_length[OF a] lex_frac_length[OF b] lex_exp_length[OF c] s1
  show ?thesis by linarith
qed

text \<open>
  \<open>tokenize\<close> cuts the text into tokens, skipping the four JSON white space characters
  between them; \<open>None\<close> is a lexical error. The code units it looks at are the braces
  (123, 125), the brackets (91, 93), the colon (58), the comma (44), the quote (34), the
  minus (45), the digits, and the first letters of \<open>true\<close> (116), \<open>false\<close> (102) and
  \<open>null\<close> (110).
\<close>

fun cons_token :: "token \<Rightarrow> token list option \<Rightarrow> token list option" where
  "cons_token t None = None"
| "cons_token t (Some ts) = Some (t # ts)"

function tokenize :: "jsstring \<Rightarrow> token list option" where
  "tokenize [] = Some []"
| "tokenize (c # cs) =
     (if isJSONWhiteSpace c then tokenize cs
      else if c = 123 then cons_token TLBrace (tokenize cs)
      else if c = 125 then cons_token TRBrace (tokenize cs)
      else if c = 91 then cons_token TLBracket (tokenize cs)
      else if c = 93 then cons_token TRBracket (tokenize cs)
      else if c = 58 then cons_token TColon (tokenize cs)
      else if c = 44 then cons_token TComma (tokenize cs)
      else if c = 34 then
        (case lex_string [] cs of
           None \<Rightarrow> None
         | Some (str, rest) \<Rightarrow> cons_token (TString str) (tokenize rest))
      else if c = 45 \<or> isDecimalDigit c then
        (case lex_number (c # cs) of
           None \<Rightarrow> None
         | Some ((m, e), rest) \<Rightarrow> cons_token (TNumber m e) (tokenize rest))
      else if c = 116 then
        (case strip_prefix (js ''rue'') cs of
           None \<Rightarrow> None
         | Some rest \<Rightarrow> cons_token TTrue (tokenize rest))
      else if c = 102 then
        (case strip_prefix (js ''alse'') cs of
           None \<Rightarrow> None
         | Some rest \<Rightarrow> cons_token TFalse (tokenize rest))
      else if c = 110 then
        (case strip_prefix (js ''ull'') cs of
           None \<Rightarrow> None
         | Some rest \<Rightarrow> cons_token TNull (tokenize rest))
      else None)"
  by pat_completeness auto

termination
proof (relation "measure length")
  show "wf (measure length)" by simp
qed (auto dest: lex_string_length lex_number_length strip_prefix_length
       simp del: strip_prefix.simps simp: less_Suc_eq_le)

subsection \<open>The grammar\<close>

text \<open>
  The parser reads the tokens from left to right with a stack of the arrays and objects
  that are still open. \<open>ArrayFrame xs\<close> is an array with the elements \<open>xs\<close> read so
  far, \<open>ObjectFrame kvs k\<close> an object with the members \<open>kvs\<close> read so far and the key
  \<open>k\<close> whose value is being read.
\<close>

datatype frame =
    ArrayFrame "jsvalue list"
  | ObjectFrame "(jsstring \<times> jsvalue) list" jsstring

datatype pstate =
    PValue "frame list"
  | PArrayFirst "frame list"
  | PArrayNext "jsvalue list" "frame list"
  | PObjectFirst "frame list"
  | PObjectNext "(jsstring \<times> jsvalue) list" "frame list"
  | PKey "(jsstring \<times> jsvalue) list" "frame list"
  | PColon "(jsstring \<times> jsvalue) list" jsstring "frame list"
  | PDone jsvalue

text \<open>A value is complete: it is the whole text, or it joins the innermost open frame.\<close>

fun complete :: "jsvalue \<Rightarrow> frame list \<Rightarrow> pstate" where
  "complete v [] = PDone v"
| "complete v (ArrayFrame xs # st) = PArrayNext (xs @ [v]) st"
| "complete v (ObjectFrame kvs k # st) = PObjectNext (kvs @ [(k, v)]) st"

fun start_value :: "frame list \<Rightarrow> token \<Rightarrow> pstate option" where
  "start_value st TLBracket = Some (PArrayFirst st)"
| "start_value st TLBrace = Some (PObjectFirst st)"
| "start_value st (TString s) = Some (complete (JStr s) st)"
| "start_value st (TNumber m e) = Some (complete (JNum m e) st)"
| "start_value st TTrue = Some (complete (JBool True) st)"
| "start_value st TFalse = Some (complete (JBool False) st)"
| "start_value st TNull = Some (complete JNull st)"
| "start_value st _ = None"

fun pstep :: "pstate \<Rightarrow> token \<Rightarrow> pstate option" where
  "pstep (PValue st) t = start_value st t"
| "pstep (PArrayFirst st) t =
     (if t = TRBracket then Some (complete (JArr []) st)
      else start_value (ArrayFrame [] # st) t)"
| "pstep (PArrayNext xs st) t =
     (if t = TComma then Some (PValue (ArrayFrame xs # st))
      else if t = TRBracket then Some (complete (JArr xs) st)
      else None)"
| "pstep (PObjectFirst st) t =
     (case t of
        TRBrace \<Rightarrow> Some (complete (JObj []) st)
      | TString k \<Rightarrow> Some (PColon [] k st)
      | _ \<Rightarrow> None)"
| "pstep (PObjectNext kvs st) t =
     (if t = TComma then Some (PKey kvs st)
      else if t = TRBrace then Some (complete (JObj kvs) st)
      else None)"
| "pstep (PKey kvs st) t = (case t of TString k \<Rightarrow> Some (PColon kvs k st) | _ \<Rightarrow> None)"
| "pstep (PColon kvs k st) t =
     (if t = TColon then Some (PValue (ObjectFrame kvs k # st)) else None)"
| "pstep (PDone v) t = None"

fun parse_tokens :: "pstate \<Rightarrow> token list \<Rightarrow> pstate option" where
  "parse_tokens p [] = Some p"
| "parse_tokens p (t # ts) =
     (case pstep p t of None \<Rightarrow> None | Some p' \<Rightarrow> parse_tokens p' ts)"

text \<open>
  \<open>JSON.parse(text)\<close>: the value the text denotes, or a thrown \<open>SyntaxError\<close> (whose
  message depends on the engine and is left empty).
\<close>

definition JSON_parse :: "jsstring \<Rightarrow> js_exn + jsvalue" where
  "JSON_parse src =
     (case tokenize src of
        None \<Rightarrow> Inl SyntaxError
      | Some ts \<Rightarrow>
          (case parse_tokens (PValue []) ts of
             Some (PDone v) \<Rightarrow> Inr v
           | _ \<Rightarrow> Inl SyntaxError))"

text \<open>
  The property read \<open>parsed.text\<close>. Reading a property of \<open>null\<close> or \<open>undefined\<close>
  throws a \<open>TypeError\<close>; an object gives the value of its last member \<open>text\<close>, or
  \<open>undefined\<close>; no other value has a property of that name.
\<close>

fun get_text :: "jsvalue \<Rightarrow> js_exn + jsvalue" where
  "get_text JUndefined = Inl TypeError"
| "get_text JNull = Inl TypeError"
| "get_text (JObj kvs) =
     (case Map_get (rev kvs) (js ''text'') of None \<Rightarrow> Inr JUndefined | Some v \<Rightarrow> Inr v)"
| "get_text _ = Inr JUndefined"

section \<open>types.ts and the inbound event\<close>

record ResolvedFeishuAccount =
  accountId :: jsstring
  appId :: jsstring
  appSecret :: jsstring

datatype chat_kind = P2P | Group

text \<open>\<open>FeishuMessage\<close>; \<open>text_field\<close> is the optional property \<open>text\<close>, \<open>None\<close> when the
  object has no such property.\<close>

record FeishuMessage =
  messageId :: jsstring
  chatId :: jsstring
  chatType :: chat_kind
  senderId :: jsstring
  messageType :: jsstring
  content :: jsstring
  text_field :: "jsvalue option"

text \<open>
  The event the platform delivers: \<open>data.message\<close> with its optional string properties
  (\<open>raw_content\<close> is its property \<open>content\<close>), and \<open>data.sender?.sender_id?.open_id\<close>,
  which is \<open>undefined\<close> when any link of the chain is missing.
\<close>

record raw_message =
  message_id :: "jsstring option"
  create_time :: "jsstring option"
  chat_id :: "jsstring option"
  chat_type :: "jsstring option"
  message_type :: "jsstring option"
  raw_content :: "jsstring option"

record event_data =
  message :: "raw_message option"
  sender_open_id :: "jsstring option"

text \<open>\<open>s || ""\<close> for \<open>s\<close> a string or \<open>undefined\<close>.\<close>

definition or_empty :: "jsstring option \<Rightarrow> jsstring" where
  "or_empty s = (case s of None \<Rightarrow> [] | Some x \<Rightarrow> x)"

text \<open>A string or \<open>undefined\<close> inside a template literal.\<close>

definition template_str :: "jsstring option \<Rightarrow> jsstring" where
  "template_str s = (case s of None \<Rightarrow> js ''undefined'' | Some x \<Rightarrow> x)"

section \<open>gateway.ts: the connection registry and the event handler\<close>

text \<open>
  A method of an SDK object as \<open>stopGateway\<close> sees it: not a function, a function that
  returns, or a function that throws.
\<close>

datatype js_method = NotAFunction | Returns | Throws js_exn

record WSClient =
  ws_id :: nat
  ws_appId :: jsstring
  ws_appSecret :: jsstring
  close :: js_method
  stop :: js_method

text \<open>What the SDK's \<open>WSClient\<close> class gives the objects it constructs.\<close>

record ws_sdk =
  sdk_close :: js_method
  sdk_stop :: js_method

text \<open>
  \<open>GatewayOptions\<close>. \<open>onMessage\<close> is an asynchronous callback: \<open>None\<close> when its promise
  is fulfilled, \<open>Some e\<close> when it throws or rejects with \<open>e\<close>. \<open>abortSignal\<close> is the
  identity of the signal, \<open>logger\<close> tells whether a logger was passed. A logger that was
  passed returns from \<open>info\<close> and \<open>error\<close>, as the \<open>console\<close> methods of channel.ts do.
\<close>

record GatewayOptions =
  account :: ResolvedFeishuAccount
  onMessage :: "FeishuMessage \<Rightarrow> js_exn option"
  abortSignal :: "nat option"
  logger :: bool

datatype effect =
    LoggerInfo jsstring
  | LoggerError jsstring
  | WSClientStart nat
  | WSClientClose nat
  | WSClientStop nat
  | OnMessage FeishuMessage

text \<open>
  The state of the module and of its surroundings: the two module-level maps, the
  callbacks queued by \<open>setImmediate\<close> (each with the options and the message it closes
  over), the abort listeners registered and not yet fired, the calls made to the outside
  in the order they were made, and the identity of the next object constructed.
\<close>

record world =
  wsClientCache :: "WSClient js_map"
  processedMessages :: "int js_map"
  immediates :: "(GatewayOptions \<times> FeishuMessage) list"
  abortListeners :: "(nat \<times> GatewayOptions) list"
  effects :: "effect list"
  next_id :: nat

text \<open>A computation ends with a thrown value (\<open>Inl\<close>) or a result, and leaves a state.\<close>

type_synonym 'a io = "world \<Rightarrow> (js_exn + 'a) \<times> world"

definition try_catch :: "'a io \<Rightarrow> (js_exn \<Rightarrow> 'a io) \<Rightarrow> 'a io" where
  "try_catch body handler w =
     (case body w of (Inl e, w') \<Rightarrow> handler e w' | (Inr x, w') \<Rightarrow> (Inr x, w'))"

definition emit :: "effect \<Rightarrow> world \<Rightarrow> world" where
  "emit e w = w\<lparr>effects := effects w @ [e]\<rparr>"

definition logger_info :: "GatewayOptions \<Rightarrow> jsstring \<Rightarrow> world \<Rightarrow> world" where
  "logger_info options line w = (if logger options then emit (LoggerInfo line) w else w)"

definition logger_error :: "GatewayOptions \<Rightarrow> jsstring \<Rightarrow> world \<Rightarrow> world" where
  "logger_error options line w = (if logger options then emit (LoggerError line) w else w)"

definition call_close :: "WSClient \<Rightarrow> unit io" where
  "call_close c w =
     (case close c of
        NotAFunction \<Rightarrow> (Inl TypeError, w)
      | Returns \<Rightarrow> (Inr (), emit (WSClientClose (ws_id c)) w)
      | Throws e \<Rightarrow> (Inl e, emit (WSClientClose (ws_id c)) w))"

definition call_stop :: "WSClient \<Rightarrow> unit io" where
  "call_stop c w =
     (case stop c of
        NotAFunction \<Rightarrow> (Inl TypeError, w)
      | Returns \<Rightarrow> (Inr (), emit (WSClientStop (ws_id c)) w)
      | Throws e \<Rightarrow> (Inl e, emit (WSClientStop (ws_id c)) w))"

definition stopGateway :: "jsstring \<Rightarrow> unit io" where
  "stopGateway account_id w =
     (case Map_get (wsClientCache w) account_id of
        None \<Rightarrow> (Inr (), w)
      | Some wsClient \<Rightarrow>
          (case try_catch
                  (if close wsClient \<noteq> NotAFunction then call_close wsClient
                   else if stop wsClient \<noteq> NotAFunction then call_stop wsClient
                   else (\<lambda>w0. (Inr (), w0)))
                  (\<lambda>e w0. (Inr (), w0)) w of
             (Inl e, w1) \<Rightarrow> (Inl e, w1)
           | (Inr _, w1) \<Rightarrow>
               (Inr (), w1\<lparr>wsClientCache := Map_delete (wsClientCache w1) account_id\<rparr>)))"

text \<open>
  \<open>startGateway\<close>, in the order of the source: the teardown of an existing handle,
  the construction of the client, the abort listener, \<open>wsClient.start\<close>, the log line,
  and last the store into the registry. The constructor of the SDK returns, and
  \<open>wsClient.start\<close> is asynchronous: what goes wrong in it later does not reach the
  caller.
\<close>

definition startGateway_teardown :: "GatewayOptions \<Rightarrow> unit io" where
  "startGateway_teardown options w =
     (let cacheKey = accountId (account options) in
      if Map_get (wsClientCache w) cacheKey \<noteq> None then stopGateway cacheKey w
      else (Inr (), w))"

definition startGateway_connect :: "ws_sdk \<Rightarrow> GatewayOptions \<Rightarrow> world \<Rightarrow> WSClient \<times> world" where
  "startGateway_connect sdk options w1 =
     (let cacheKey = accountId (account options);
          wsClient = \<lparr>ws_id = next_id w1, ws_appId = appId (account options),
                      ws_appSecret = appSecret (account options),
                      close = sdk_close sdk, stop = sdk_stop sdk\<rparr>;
          w2 = w1\<lparr>next_id := next_id w1 + 1\<rparr>;
          w3 = (case abortSignal options of
                  None \<Rightarrow> w2
                | Some signal \<Rightarrow> w2\<lparr>abortListeners := abortListeners w2 @ [(signal, options)]\<rparr>);
          w4 = emit (WSClientStart (ws_id wsClient)) w3;
          w5 = logger_info options (js ''logged in to feishu as '' @ appId (account options)) w4;
          w6 = w5\<lparr>wsClientCache := Map_set (wsClientCache w5) cacheKey wsClient\<rparr>
      in (wsClient, w6))"

definition startGateway :: "ws_sdk \<Rightarrow> GatewayOptions \<Rightarrow> WSClient io" where
  "startGateway sdk options w =
     (case startGateway_teardown options w of
        (Inl e, w1) \<Rightarrow> (Inl e, w1)
      | (Inr _, w1) \<Rightarrow>
          (case startGateway_connect sdk options w1 of (wsClient, w6) \<Rightarrow> (Inr wsClient, w6)))"

text \<open>
  The abort listener of \<open>startGateway\<close>, and the signal firing: the listeners of the
  signal run once, in the order they were added, and are removed.
\<close>

definition abort_listener :: "GatewayOptions \<Rightarrow> unit io" where
  "abort_listener options w =
     stopGateway (accountId (account options))
       (logger_info options (js ''received abort signal, stopping gateway'') w)"

fun run_listeners :: "GatewayOptions list \<Rightarrow> world \<Rightarrow> world" where
  "run_listeners [] w = w"
| "run_listeners (l # ls) w = run_listeners ls (snd (abort_listener l w))"

definition abort :: "nat \<Rightarrow> world \<Rightarrow> world" where
  "abort signal w =
     run_listeners (map snd (filter (\<lambda>l. fst l = signal) (abortListeners w)))
       (w\<lparr>abortListeners := filter (\<lambda>l. fst l \<noteq> signal) (abortListeners w)\<rparr>)"

subsection \<open>The handler of \<open>im.message.receive_v1\<close>\<close>

text \<open>
  The values \<open>Date.now()\<close> returns at the three places of the handler that read the
  clock, where they are reached: the insert and the cleanup of \<open>isDuplicateMessage\<close>,
  and \<open>isMessageExpired\<close>.
\<close>

record clock =
  now_set :: int
  now_cleanup :: int
  now_expired :: int

text \<open>The empty object every path of the handler returns.\<close>

datatype ack = EmptyObject

definition to_FeishuMessage :: "event_data \<Rightarrow> raw_message \<Rightarrow> jsstring \<Rightarrow> FeishuMessage" where
  "to_FeishuMessage data m mid =
     \<lparr>messageId = mid,
      chatId = or_empty (chat_id m),
      chatType = (if chat_type m = Some (js ''p2p'') then P2P else Group),
      senderId = or_empty (sender_open_id data),
      messageType = or_empty (message_type m),
      content = or_empty (raw_content m),
      text_field = None\<rparr>"

text \<open>
  The \<open>try\<close> block of the handler: \<open>JSON.parse\<close>, then the read of \<open>parsed.text\<close>, then
  the assignment; whatever is thrown is ignored and leaves the message as it was.
\<close>

definition parse_text :: "FeishuMessage \<Rightarrow> FeishuMessage" where
  "parse_text feishuMessage =
     (if messageType feishuMessage = js ''text'' then
        (case JSON_parse (content feishuMessage) of
           Inl e \<Rightarrow> feishuMessage
         | Inr parsed \<Rightarrow>
             (case get_text parsed of
                Inl e \<Rightarrow> feishuMessage
              | Inr t \<Rightarrow> feishuMessage\<lparr>text_field := Some t\<rparr>))
      else feishuMessage)"

definition im_message_receive_v1 ::
  "GatewayOptions \<Rightarrow> clock \<Rightarrow> event_data \<Rightarrow> world \<Rightarrow> ack \<times> world" where
  "im_message_receive_v1 options clk data w =
     (case message data of
        None \<Rightarrow> (EmptyObject, w)
      | Some m \<Rightarrow>
          let mid = or_empty (message_id m);
              createTime = create_time m;
              dup = isDuplicateMessage (now_set clk) (now_cleanup clk) mid (processedMessages w);
              w1 = w\<lparr>processedMessages := snd dup\<rparr>
          in if fst dup then (EmptyObject, w1)
             else if isMessageExpired (now_expired clk) createTime then
               (EmptyObject,
                logger_info options
                  (js ''Skipping expired message '' @ template_str (raw_content m)
                     @ js '', create_time: '' @ template_str createTime) w1)
             else
               (EmptyObject,
                w1\<lparr>immediates := immediates w1
                       @ [(options, parse_text (to_FeishuMessage data m mid))]\<rparr>))"

text \<open>
  The callback passed to \<open>setImmediate\<close>, run by the event loop on a later turn:
  it awaits \<open>onMessage\<close> inside \<open>try\<close> and logs what is thrown.
\<close>

definition await_onMessage :: "GatewayOptions \<Rightarrow> FeishuMessage \<Rightarrow> unit io" where
  "await_onMessage options feishuMessage w =
     (case onMessage options feishuMessage of
        None \<Rightarrow> (Inr (), emit (OnMessage feishuMessage) w)
      | Some e \<Rightarrow> (Inl e, emit (OnMessage feishuMessage) w))"

definition immediate_callback :: "GatewayOptions \<times> FeishuMessage \<Rightarrow> unit io" where
  "immediate_callback task =
     try_catch (await_onMessage (fst task) (snd task))
       (\<lambda>e w. (Inr (), logger_error (fst task) (js ''Error handling message: '' @ String_exn e) w))"

text \<open>One turn of the event loop: the oldest queued callback runs.\<close>

definition run_immediate :: "unit io" where
  "run_immediate w =
     (case immediates w of
        [] \<Rightarrow> (Inr (), w)
      | task # rest \<Rightarrow> immediate_callback task (w\<lparr>immediates := rest\<rparr>))"

text \<open>A sequence of events arriving at one handler, each with its clock readings.\<close>

fun receive_all :: "GatewayOptions \<Rightarrow> (clock \<times> event_data) list \<Rightarrow> world \<Rightarrow> world" where
  "receive_all options [] w = w"
| "receive_all options (ev # evs) w =
     receive_all options evs (snd (im_message_receive_v1 options (fst ev) (snd ev) w))"

text \<open>
  The number of queued callbacks that will hand a message with the id \<open>k\<close> to
  \<open>onMessage\<close>.
\<close>

definition dispatches :: "jsstring \<Rightarrow> world \<Rightarrow> nat" where
  "dispatches k w = length (filter (\<lambda>task. messageId (snd task) = k) (immediates w))"

text \<open>The state when the module has just been loaded.\<close>

definition initial_world :: world where
  "initial_world =
     \<lparr>wsClientCache = [], processedMessages = [], immediates = [], abortListeners = [],
      effects = [], next_id = 0\<rparr>"

section \<open>client.ts: outbound messages\<close>

record lark_Client =
  client_appId :: jsstring
  client_appSecret :: jsstring

text \<open>
  \<open>JSON.stringify({ text })\<close> for a string \<open>text\<close>: the string is quoted as
  \<open>QuoteJSONString\<close> does, with the short escapes, \<open>\<^verbatim>\<open>\u\<close>\<close> escapes in lower-case
  hexadecimal for the other control characters and for a surrogate that has no partner.
\<close>

definition hex_digit :: "nat \<Rightarrow> nat" where
  "hex_digit n = (if n < 10 then 48 + n else 87 + n)"

definition unicode_escape :: "nat \<Rightarrow> jsstring" where
  "unicode_escape c =
     [92, 117, hex_digit (c div 4096 mod 16), hex_digit (c div 256 mod 16),
      hex_digit (c div 16 mod 16), hex_digit (c mod 16)]"

definition quote_unit :: "nat \<Rightarrow> jsstring" where
  "quote_unit c =
     (if c = 8 then [92, 98] else if c = 9 then [92, 116] else if c = 10 then [92, 110]
      else if c = 12 then [92, 102] else if c = 13 then [92, 114]
      else if c = 34 then [92, 34] else if c = 92 then [92, 92]
      else if c < 32 then unicode_escape c
      else [c])"

definition is_lead_surrogate :: "nat \<Rightarrow> bool" where
  "is_lead_surrogate c = (0xD800 \<le> c \<and> c \<le> 0xDBFF)"

definition is_trail_surrogate :: "nat \<Rightarrow> bool" where
  "is_trail_surrogate c = (0xDC00 \<le> c \<and> c \<le> 0xDFFF)"

fun quote_units :: "jsstring \<Rightarrow> jsstring" where
  "quote_units [] = []"
| "quote_units [c] =
     (if is_lead_surrogate c \<or> is_trail_surrogate c then unicode_escape c else quote_unit c)"
| "quote_units (c # d # cs) =
     (if is_lead_surrogate c \<and> is_trail_surrogate d then c # d # quote_units cs
      else if is_lead_surrogate c \<or> is_trail_surrogate c
        then unicode_escape c @ quote_units (d # cs)
      else quote_unit c @ quote_units (d # cs))"

definition stringify_text :: "jsstring \<Rightarrow> jsstring" where
  "stringify_text txt =
     [123, 34] @ js ''text'' @ [34, 58, 34] @ quote_units txt @ [34, 125]"

text \<open>The requests of the two SDK calls and what the platform answers.\<close>

record create_request =
  receive_id_type :: jsstring
  receive_id :: jsstring
  create_msg_type :: jsstring
  create_content :: jsstring

record reply_request =
  path_message_id :: jsstring
  reply_msg_type :: jsstring
  reply_content :: jsstring

record api_result =
  code :: "int option"
  msg :: "jsstring option"

text \<open>
  The SDK as the caller meets it. \<open>Client_throws\<close> is what the constructor
  \<open>new lark.Client({appId, appSecret})\<close> throws for the credentials it is given, \<open>None\<close>
  when it returns the client. Each awaited call gives a result or throws (a rejected
  promise included).
\<close>

record lark_api =
  Client_throws :: "jsstring \<Rightarrow> jsstring \<Rightarrow> js_exn option"
  message_create :: "lark_Client \<Rightarrow> create_request \<Rightarrow> js_exn + api_result"
  message_reply :: "lark_Client \<Rightarrow> reply_request \<Rightarrow> js_exn + api_result"

text \<open>
  \<open>getFeishuClient\<close>: the client cached for the application id; on the first use the
  client is constructed and cached. When the constructor throws, nothing is cached and
  the exception is the outcome.
\<close>

definition getFeishuClient ::
  "lark_api \<Rightarrow> ResolvedFeishuAccount \<Rightarrow> lark_Client js_map
     \<Rightarrow> (js_exn + lark_Client) \<times> lark_Client js_map" where
  "getFeishuClient api acct clientCache =
     (let cacheKey = appId acct in
      case Map_get clientCache cacheKey of
        Some client \<Rightarrow> (Inr client, clientCache)
      | None \<Rightarrow>
          (case Client_throws api (appId acct) (appSecret acct) of
             Some e \<Rightarrow> (Inl e, clientCache)
           | None \<Rightarrow>
               (let client = \<lparr>client_appId = appId acct, client_appSecret = appSecret acct\<rparr>
                in (Inr client, Map_set clientCache cacheKey client))))"

record send_result =
  ok :: bool
  error :: "jsstring option"

definition try_catch_value :: "js_exn + 'a \<Rightarrow> (js_exn \<Rightarrow> js_exn + 'a) \<Rightarrow> js_exn + 'a" where
  "try_catch_value body handler = (case body of Inl e \<Rightarrow> handler e | Inr x \<Rightarrow> Inr x)"

definition on_result :: "js_exn + api_result \<Rightarrow> js_exn + send_result" where
  "on_result r =
     (case r of
        Inl e \<Rightarrow> Inl e
      | Inr result \<Rightarrow>
          if code result = Some 0 then Inr \<lparr>ok = True, error = None\<rparr>
          else Inr \<lparr>ok = False, error = msg result\<rparr>)"

text \<open>
  \<open>sendTextMessage\<close> and \<open>replyTextMessage\<close>. The call of \<open>getFeishuClient\<close> stands
  before the \<open>try\<close> block: what it throws leaves the function (the returned promise
  rejects). What the SDK call throws inside the block is caught and turned into a result.
\<close>

definition sendTextMessage ::
  "lark_api \<Rightarrow> ResolvedFeishuAccount \<Rightarrow> jsstring \<Rightarrow> jsstring \<Rightarrow> lark_Client js_map
     \<Rightarrow> (js_exn + send_result) \<times> lark_Client js_map" where
  "sendTextMessage api acct chat txt clientCache =
     (case getFeishuClient api acct clientCache of
        (Inl e, cache') \<Rightarrow> (Inl e, cache')
      | (Inr client, cache') \<Rightarrow>
          (try_catch_value
             (on_result
                (message_create api client
                   \<lparr>receive_id_type = js ''chat_id'', receive_id = chat,
                    create_msg_type = js ''text'', create_content = stringify_text txt\<rparr>))
             (\<lambda>e. Inr \<lparr>ok = False, error = Some (String_exn e)\<rparr>),
           cache'))"

definition replyTextMessage ::
  "lark_api \<Rightarrow> ResolvedFeishuAccount \<Rightarrow> jsstring \<Rightarrow> jsstring \<Rightarrow> lark_Client js_map
     \<Rightarrow> (js_exn + send_result) \<times> lark_Client js_map" where
  "replyTextMessage api acct mid txt clientCache =
     (case getFeishuClient api acct clientCache of
        (Inl e, cache') \<Rightarrow> (Inl e, cache')
      | (Inr client, cache') \<Rightarrow>
          (try_catch_value
             (on_result
                (message_reply api client
                   \<lparr>path_message_id = mid, reply_msg_type = js ''text'',
                    reply_content = stringify_text txt\<rparr>))
             (\<lambda>e. Inr \<lparr>ok = False, error = Some (String_exn e)\<rparr>),
           cache'))"

section \<open>channel.ts: the \<open>onMessage\<close> callback of \<open>startAccount\<close>\<close>

record MsgContext =
  From :: jsstring
  Body :: jsvalue
  AccountId :: jsstring
  Provider :: jsstring
  Surface :: jsstring
  SessionKey :: jsstring
  To :: jsstring
  ChatType :: jsstring

text \<open>
  What the callback does to the outside, in order: the console line with the account id
  and the text, the call of the host's reply dispatcher with the context, and each call
  of \<open>sendTextMessage\<close> with the conversation id and the text.
\<close>

datatype channel_effect =
    ConsoleLog jsstring jsvalue
  | DispatchReply MsgContext
  | SendText jsstring jsstring

text \<open>\<open>message.text\<close>: the value of the property, \<open>undefined\<close> without it.\<close>

definition message_text :: "FeishuMessage \<Rightarrow> jsvalue" where
  "message_text m = (case text_field m of None \<Rightarrow> JUndefined | Some v \<Rightarrow> v)"

text \<open>
  \<open>deliver\<close>, for each payload the dispatcher hands over: \<open>payload.text ?? ""\<close> is sent
  when it is not empty. The result of the send is not looked at; when the send throws,
  \<open>deliver\<close> rejects, and what the dispatcher does then is part of what it is given by.
\<close>

fun deliver_all ::
  "lark_api \<Rightarrow> ResolvedFeishuAccount \<Rightarrow> FeishuMessage \<Rightarrow> jsstring option list
     \<Rightarrow> lark_Client js_map \<Rightarrow> channel_effect list \<times> lark_Client js_map" where
  "deliver_all api acct m [] cache = ([], cache)"
| "deliver_all api acct m (payload_text # ps) cache =
     (let txt = or_empty payload_text in
      if txt \<noteq> [] then
        (case sendTextMessage api acct (chatId m) txt cache of
           (r, cache1) \<Rightarrow>
             (case deliver_all api acct m ps cache1 of
                (es, cache2) \<Rightarrow> (SendText (chatId m) txt # es, cache2)))
      else deliver_all api acct m ps cache)"

text \<open>
  The host's \<open>dispatchReplyWithBufferedBlockDispatcher\<close> is given by what it does with a
  context: the texts of the payloads it delivers, and how its promise ends.
\<close>

definition channel_onMessage ::
  "lark_api \<Rightarrow> (MsgContext \<Rightarrow> jsstring option list \<times> js_exn option)
     \<Rightarrow> ResolvedFeishuAccount \<Rightarrow> FeishuMessage \<Rightarrow> lark_Client js_map
     \<Rightarrow> js_exn option \<times> channel_effect list \<times> lark_Client js_map" where
  "channel_onMessage api dispatcher acct m cache =
     (if messageType m \<noteq> js ''text'' \<or> \<not> truthy (message_text m) then (None, [], cache)
      else
        let msgCtx = \<lparr>From = senderId m, Body = message_text m, AccountId = accountId acct,
                       Provider = js ''feishu'', Surface = js ''feishu'',
                       SessionKey = js ''feishu:'' @ accountId acct @ js '':'' @ chatId m,
                       To = chatId m,
                       ChatType = (if chatType m = P2P then js ''direct'' else js ''group'')\<rparr>
        in case dispatcher msgCtx of
             (payloads, outcome) \<Rightarrow>
               (case deliver_all api acct m payloads cache of
                  (sends, cache') \<Rightarrow>
                    (outcome,
                     ConsoleLog (accountId acct) (message_text m) # DispatchReply msgCtx # sends,
                     cache')))"

text \<open>
  The scenarios of the specification: a gateway with a logger, an event with a given id,
  creation time, message type and content, and a clock that shows one time throughout an
  event.
\<close>

definition scenario_options :: GatewayOptions where
  "scenario_options =
     \<lparr>account = \<lparr>accountId = js ''default'', appId = js ''cli_a1'', appSecret = js ''s3''\<rparr>,
      onMessage = (\<lambda>m. None), abortSignal = None, logger = True\<rparr>"

definition scenario_event :: "jsstring \<Rightarrow> jsstring \<Rightarrow> jsstring \<Rightarrow> jsstring \<Rightarrow> event_data" where
  "scenario_event mid created kind body =
     \<lparr>message = Some \<lparr>message_id = Some mid, create_time = Some created,
                        chat_id = Some (js ''oc_1''), chat_type = Some (js ''p2p''),
                        message_type = Some kind, raw_content = Some body\<rparr>,
      sender_open_id = Some (js ''ou_1'')\<rparr>"

definition at_time :: "int \<Rightarrow> clock" where
  "at_time t = \<lparr>now_set = t, now_cleanup = t, now_expired = t\<rparr>"

text \<open>A registry that holds one client, for the account \<open>default\<close>.\<close>

definition scenario_client :: "js_method \<Rightarrow> js_method \<Rightarrow> WSClient" where
  "scenario_client c s =
     \<lparr>ws_id = 7, ws_appId = js ''cli_a1'', ws_appSecret = js ''s3'', close = c, stop = s\<rparr>"

definition scenario_registry :: "js_method \<Rightarrow> js_method \<Rightarrow> world" where
  "scenario_registry c s =
     initial_world\<lparr>wsClientCache := [(js ''default'', scenario_client c s)], next_id := 8\<rparr>"

text \<open>
  An SDK whose constructor returns and whose two calls end the same given way; an SDK
  whose constructor throws a given exception for an empty application secret; and the
  account of the scenarios.
\<close>

definition scenario_api :: "js_exn + api_result \<Rightarrow> lark_api" where
  "scenario_api outcome =
     \<lparr>Client_throws = (\<lambda>app_id secret. None),
      message_create = (\<lambda>c r. outcome), message_reply = (\<lambda>c r. outcome)\<rparr>"


definition scenario_account :: ResolvedFeishuAccount where
  "scenario_account = \<lparr>accountId = js ''default'', appId = js ''cli_a1'', appSecret = js ''s3''\<rparr>"

text \<open>A normalized message of the scenarios, with a given type and text field.\<close>

definition scenario_message :: "jsstring \<Rightarrow> jsvalue option \<Rightarrow> FeishuMessage" where
  "scenario_message kind t =
     \<lparr>messageId = js ''E1'', chatId = js ''oc_1'', chatType = P2P, senderId = js ''ou_1'',
      messageType = kind, content = js ''raw'', text_field = t\<rparr>"

section \<open>Properties of the map operations and of the dedupe cache\<close>

lemma Map_get_set: "Map_get (Map_set m k v) k' = (if k' = k then Some v else Map_get m k')"
  by (induction m) auto

lemma Map_keys_set: "fst ` set (Map_set m k v) = insert k (fst ` set m)"
  by (induction m) auto

lemma Map_get_None_iff: "Map_get m k = None \<longleftrightarrow> k \<notin> fst ` set m"
  by (induction m) auto

lemma Map_wf_set: "Map_wf m \<Longrightarrow> Map_wf (Map_set m k v)"
  unfolding Map_wf_def
proof (induction m)
  case Nil
  then show ?case by simp
next
  case (Cons e es)
  then show ?case
    using Map_keys_set[of es k v] by (auto simp: image_iff)
qed

lemma Map_set_fresh: "Map_get m k = None \<Longrightarrow> Map_set m k v = m @ [(k, v)]"
  by (induction m) (auto split: if_splits)

lemma Map_delete_filter: "Map_wf m \<Longrightarrow> Map_delete m k = filter (\<lambda>e. fst e \<noteq> k) m"
  unfolding Map_wf_def
proof (induction m)
  case Nil
  then show ?case by simp
next
  case (Cons e es)
  have "fst e \<notin> fst ` set es" using Cons.prems by auto
  then have "filter (\<lambda>x. fst x \<noteq> fst e) es = es"
    by (intro filter_True) (auto simp: image_iff)
  with Cons show ?case by auto
qed

lemma Map_wf_filter: "Map_wf m \<Longrightarrow> Map_wf (filter P m)"
  unfolding Map_wf_def by (simp add: distinct_map_filter)

lemma Map_wf_delete: "Map_wf m \<Longrightarrow> Map_wf (Map_delete m k)"
  by (simp add: Map_delete_filter Map_wf_filter)

lemma Map_get_filter:
  "Map_wf m \<Longrightarrow> Map_get (filter P m) k = (case Map_get m k of None \<Rightarrow> None | Some v \<Rightarrow> if P (k, v) then Some v else None)"
  unfolding Map_wf_def
proof (induction m)
  case Nil
  then show ?case by simp
next
  case (Cons e es)
  then have IH: "Map_get (filter P es) k = (case Map_get es k of None \<Rightarrow> None | Some v \<Rightarrow> if P (k, v) then Some v else None)"
    by simp
  show ?case
  proof (cases "fst e = k")
    case True
    then have "Map_get es k = None" using Cons.prems by (auto simp: Map_get_None_iff)
    with True IH show ?thesis by (cases e) auto
  next
    case False
    with IH show ?thesis by auto
  qed
qed

lemma Map_get_delete: "Map_wf m \<Longrightarrow> Map_get (Map_delete m k) k' = (if k' = k then None else Map_get m k')"
  by (auto simp: Map_delete_filter Map_get_filter split: option.splits)

lemma Map_get_in: "Map_wf m \<Longrightarrow> (k, v) \<in> set m \<longleftrightarrow> Map_get m k = Some v"
  unfolding Map_wf_def
  by (induction m) (auto simp: image_iff rev_image_eqI)

lemma cleanup_loop_filter:
  "Map_wf pm \<Longrightarrow>
   cleanup_loop now es pm =
     filter (\<lambda>e. fst e \<notin> fst ` {x \<in> set es. now - snd x > MESSAGE_DEDUPE_TTL_MS}) pm"
proof (induction es arbitrary: pm)
  case Nil
  then show ?case by simp
next
  case (Cons x xs)
  show ?case
  proof (cases "now - snd x > MESSAGE_DEDUPE_TTL_MS")
    case True
    have "cleanup_loop now (x # xs) pm = cleanup_loop now xs (filter (\<lambda>e. fst e \<noteq> fst x) pm)"
      using True Cons.prems by (simp add: Map_delete_filter)
    also have "\<dots> = filter (\<lambda>e. fst e \<notin> fst ` {x \<in> set xs. now - snd x > MESSAGE_DEDUPE_TTL_MS})
                       (filter (\<lambda>e. fst e \<noteq> fst x) pm)"
      by (rule Cons.IH) (simp add: Map_wf_filter Cons.prems)
    also have "\<dots> = filter (\<lambda>e. fst e \<notin> fst ` {y \<in> set (x # xs). now - snd y > MESSAGE_DEDUPE_TTL_MS}) pm"
      using True by (auto intro!: filter_cong)
    finally show ?thesis .
  next
    case False
    have "{y \<in> set (x # xs). now - snd y > MESSAGE_DEDUPE_TTL_MS} = {y \<in> set xs. now - snd y > MESSAGE_DEDUPE_TTL_MS}"
      using False by auto
    with False Cons show ?thesis by simp
  qed
qed

lemma cleanupDedupeCache_filter:
  assumes "Map_wf pm"
  shows "cleanupDedupeCache now pm = filter (\<lambda>e. \<not> now - snd e > MESSAGE_DEDUPE_TTL_MS) pm"
proof -
  have "e \<in> set pm \<Longrightarrow>
        (fst e \<notin> fst ` {x \<in> set pm. now - snd x > MESSAGE_DEDUPE_TTL_MS}) = (\<not> now - snd e > MESSAGE_DEDUPE_TTL_MS)" for e
  proof -
    assume e: "e \<in> set pm"
    have "(fst e, b) \<in> set pm \<Longrightarrow> b = snd e" for b
      using assms e unfolding Map_wf_def by (metis eq_key_imp_eq_value prod.collapse)
    then show ?thesis using e by (force simp: image_iff)
  qed
  then show ?thesis
    unfolding cleanupDedupeCache_def cleanup_loop_filter[OF assms]
    by (intro filter_cong) auto
qed

lemma Map_wf_cleanup: "Map_wf pm \<Longrightarrow> Map_wf (cleanupDedupeCache now pm)"
  by (simp add: cleanupDedupeCache_filter Map_wf_filter)

lemma Map_get_cleanup:
  "Map_wf pm \<Longrightarrow> Map_get (cleanupDedupeCache now pm) k =
     (case Map_get pm k of None \<Rightarrow> None
      | Some t \<Rightarrow> if now - t > MESSAGE_DEDUPE_TTL_MS then None else Some t)"
  by (simp add: cleanupDedupeCache_filter Map_get_filter split: option.splits)

lemma Map_wf_isDuplicateMessage:
  "Map_wf pm \<Longrightarrow> Map_wf (snd (isDuplicateMessage t c k pm))"
  by (simp add: isDuplicateMessage_def Let_def Map_wf_set Map_wf_cleanup)

lemma isDuplicateMessage_keeps:
  assumes "Map_wf pm" "Map_get pm k = Some t0" "c - t0 \<le> MESSAGE_DEDUPE_TTL_MS"
  shows "Map_get (snd (isDuplicateMessage t c k' pm)) k = Some t0"
proof (cases "Map_has pm k'")
  case True
  then show ?thesis using assms by (simp add: isDuplicateMessage_def)
next
  case False
  then have "k' \<noteq> k" using assms by (auto simp: Map_has_def)
  then have g: "Map_get (Map_set pm k' t) k = Some t0"
    using assms by (simp add: Map_get_set)
  show ?thesis using False g assms
    by (simp add: isDuplicateMessage_def Let_def Map_get_cleanup Map_wf_set)
qed

section \<open>Properties of the event handler\<close>

lemma isDuplicateMessage_calls_keeps:
  "Map_wf pm \<Longrightarrow> Map_get pm k = Some t0 \<Longrightarrow>
   \<forall>call \<in> set calls. fst (snd call) - t0 \<le> MESSAGE_DEDUPE_TTL_MS \<Longrightarrow>
   Map_get (isDuplicateMessage_calls calls pm) k = Some t0"
proof (induction calls arbitrary: pm)
  case Nil
  then show ?case by simp
next
  case (Cons call calls)
  have "Map_get (snd (isDuplicateMessage (fst call) (fst (snd call)) (snd (snd call)) pm)) k = Some t0"
    using Cons.prems by (intro isDuplicateMessage_keeps) auto
  moreover have "Map_wf (snd (isDuplicateMessage (fst call) (fst (snd call)) (snd (snd call)) pm))"
    using Cons.prems by (intro Map_wf_isDuplicateMessage)
  ultimately show ?case using Cons.IH Cons.prems(3) by simp
qed

lemma isDuplicateMessage_first:
  assumes "Map_wf pm" "\<not> Map_has pm k"
  shows "fst (isDuplicateMessage t c k pm) = False"
    and "c - t \<le> MESSAGE_DEDUPE_TTL_MS \<Longrightarrow> Map_get (snd (isDuplicateMessage t c k pm)) k = Some t"
  using assms
  by (simp_all add: isDuplicateMessage_def Let_def Map_get_cleanup Map_wf_set Map_get_set)

lemma isDuplicateMessage_known:
  "Map_get pm k = Some t0 \<Longrightarrow> isDuplicateMessage t c k pm = (True, pm)"
  by (simp add: isDuplicateMessage_def Map_has_def)

lemma messageId_parse_text: "messageId (parse_text fm) = messageId fm"
  by (simp add: parse_text_def split: sum.splits)

lemma messageId_to_FeishuMessage: "messageId (to_FeishuMessage data m mid) = mid"
  by (simp add: to_FeishuMessage_def)

lemma processedMessages_logger_info [simp]:
  "processedMessages (logger_info options line w) = processedMessages w"
  "immediates (logger_info options line w) = immediates w"
  "wsClientCache (logger_info options line w) = wsClientCache w"
  by (simp_all add: logger_info_def emit_def)

lemma receive_processedMessages:
  "processedMessages (snd (im_message_receive_v1 options clk data w)) =
     (case message data of None \<Rightarrow> processedMessages w
      | Some m \<Rightarrow> snd (isDuplicateMessage (now_set clk) (now_cleanup clk)
                        (or_empty (message_id m)) (processedMessages w)))"
  by (simp add: im_message_receive_v1_def Let_def split: option.splits)

lemma receive_wf:
  "Map_wf (processedMessages w) \<Longrightarrow>
   Map_wf (processedMessages (snd (im_message_receive_v1 options clk data w)))"
  by (simp add: receive_processedMessages Map_wf_isDuplicateMessage split: option.splits)

lemma receive_keeps:
  "Map_wf (processedMessages w) \<Longrightarrow> Map_get (processedMessages w) k = Some t0 \<Longrightarrow>
   now_cleanup clk - t0 \<le> MESSAGE_DEDUPE_TTL_MS \<Longrightarrow>
   Map_get (processedMessages (snd (im_message_receive_v1 options clk data w))) k = Some t0"
  by (simp add: receive_processedMessages isDuplicateMessage_keeps split: option.splits)

lemma receive_known:
  assumes "Map_get (processedMessages w) k = Some t0"
  shows "dispatches k (snd (im_message_receive_v1 options clk data w)) = dispatches k w"
proof (cases "message data")
  case None
  then show ?thesis by (simp add: im_message_receive_v1_def)
next
  case (Some m)
  show ?thesis
  proof (cases "or_empty (message_id m) = k")
    case True
    with Some assms show ?thesis
      by (simp add: im_message_receive_v1_def Let_def isDuplicateMessage_known)
  next
    case False
    with Some show ?thesis
      by (simp add: im_message_receive_v1_def Let_def dispatches_def
          messageId_parse_text messageId_to_FeishuMessage)
  qed
qed

lemma receive_all_known:
  "Map_wf (processedMessages w) \<Longrightarrow> Map_get (processedMessages w) k = Some t0 \<Longrightarrow>
   \<forall>ev \<in> set evs. now_cleanup (fst ev) - t0 \<le> MESSAGE_DEDUPE_TTL_MS \<Longrightarrow>
   dispatches k (receive_all options evs w) = dispatches k w
   \<and> Map_get (processedMessages (receive_all options evs w)) k = Some t0"
proof (induction evs arbitrary: w)
  case Nil
  then show ?case by simp
next
  case (Cons ev evs)
  let ?w = "snd (im_message_receive_v1 options (fst ev) (snd ev) w)"
  have 1: "Map_wf (processedMessages ?w)" using Cons.prems(1) by (rule receive_wf)
  have 2: "Map_get (processedMessages ?w) k = Some t0"
    using Cons.prems by (intro receive_keeps) auto
  have 3: "dispatches k ?w = dispatches k w"
    using Cons.prems(2) by (rule receive_known)
  from Cons.IH[OF 1 2] Cons.prems(3) 3 show ?case by simp
qed

lemma receive_step:
  assumes "Map_wf (processedMessages w)"
    and "now_cleanup clk - now_set clk \<le> MESSAGE_DEDUPE_TTL_MS"
  shows "dispatches k (snd (im_message_receive_v1 options clk data w)) = dispatches k w
    \<or> (dispatches k (snd (im_message_receive_v1 options clk data w)) = dispatches k w + 1
        \<and> Map_get (processedMessages (snd (im_message_receive_v1 options clk data w))) k
            = Some (now_set clk))"
proof (cases "message data")
  case None
  then show ?thesis by (simp add: im_message_receive_v1_def)
next
  case (Some m)
  show ?thesis
  proof (cases "or_empty (message_id m) = k")
    case False
    with Some show ?thesis
      by (simp add: im_message_receive_v1_def Let_def dispatches_def
          messageId_parse_text messageId_to_FeishuMessage)
  next
    case True
    show ?thesis
    proof (cases "Map_has (processedMessages w) k")
      case known: True
      with Some True show ?thesis
        by (simp add: im_message_receive_v1_def Let_def isDuplicateMessage_def)
    next
      case False
      from isDuplicateMessage_first[OF assms(1) False] assms(2)
      have "fst (isDuplicateMessage (now_set clk) (now_cleanup clk) k (processedMessages w)) = False"
        and "Map_get (snd (isDuplicateMessage (now_set clk) (now_cleanup clk) k (processedMessages w))) k
              = Some (now_set clk)"
        by auto
      with Some True show ?thesis
        by (simp add: im_message_receive_v1_def Let_def dispatches_def
            messageId_parse_text messageId_to_FeishuMessage)
    qed
  qed
qed

lemma receive_all_at_most_once:
  "Map_wf (processedMessages w) \<Longrightarrow>
   \<forall>ev \<in> set evs. \<forall>ev' \<in> set evs.
      now_cleanup (fst ev') - now_set (fst ev) \<le> MESSAGE_DEDUPE_TTL_MS \<Longrightarrow>
   dispatches k (receive_all options evs w) \<le> dispatches k w + 1"
proof (induction evs arbitrary: w)
  case Nil
  then show ?case by simp
next
  case (Cons ev evs)
  let ?w = "snd (im_message_receive_v1 options (fst ev) (snd ev) w)"
  have wf: "Map_wf (processedMessages ?w)" using Cons.prems(1) by (rule receive_wf)
  have win: "\<forall>e \<in> set evs. \<forall>e' \<in> set evs.
      now_cleanup (fst e') - now_set (fst e) \<le> MESSAGE_DEDUPE_TTL_MS"
    using Cons.prems(2) by simp
  have own: "now_cleanup (fst ev) - now_set (fst ev) \<le> MESSAGE_DEDUPE_TTL_MS"
    using Cons.prems(2) by simp
  from receive_step[OF Cons.prems(1) own, of k options "snd ev"]
  show ?case
  proof
    assume "dispatches k ?w = dispatches k w"
    with Cons.IH[OF wf win] show ?thesis by simp
  next
    assume a: "dispatches k ?w = dispatches k w + 1
        \<and> Map_get (processedMessages ?w) k = Some (now_set (fst ev))"
    have "\<forall>e \<in> set evs. now_cleanup (fst e) - now_set (fst ev) \<le> MESSAGE_DEDUPE_TTL_MS"
      using Cons.prems(2) by simp
    from receive_all_known[OF wf conjunct2[OF a] this, of options] a
    show ?thesis by simp
  qed
qed

lemma Map_wf_inj: "inj f \<Longrightarrow> distinct xs \<Longrightarrow> Map_wf (map (\<lambda>i. (f i, g i)) xs)"
  by (simp add: Map_wf_def comp_def distinct_map inj_on_def inj_def)

lemma parseInt10_Nil: "parseInt10 [] = None"
  by (simp add: parseInt10_def)

section \<open>The staleness check\<close>

text \<open>
  Claim C2. \<open>isMessageExpired\<close> returns true exactly when the creation timestamp is
  present, \<open>parseInt\<close> reads a number from it, and the clock minus that number exceeds
  30 minutes (1800000 ms). For an absent timestamp, and for one \<open>parseInt\<close> reads no
  number from, it returns false.
\<close>

theorem C2_isMessageExpired:
  "(isMessageExpired now createTimeMs \<longleftrightarrow>
      (\<exists>s createTime. createTimeMs = Some s \<and> parseInt10 s = Some createTime
          \<and> now - createTime > 30 * 60 * 1000))
   \<and> \<not> isMessageExpired now None
   \<and> (parseInt10 s = None \<longrightarrow> \<not> isMessageExpired now (Some s))"
  by (auto simp: isMessageExpired_def MESSAGE_EXPIRE_TTL_MS_def parseInt10_Nil
      split: option.splits)

theorem C2_isMessageExpired_witness:
  "parseInt10 (js ''soon'') = None
   \<and> \<not> isMessageExpired 1700000000000 (Some (js ''soon''))
   \<and> isMessageExpired 1700000000000 (Some (js ''1699990000000''))
   \<and> \<not> isMessageExpired 1700000000000 (Some (js ''1699999000000''))"
proof -
  have h: "parseInt10 (js ''soon'') = None"
    by (simp add: parseInt10_def isStrWhiteSpaceChar_def isDecimalDigit_def)
  have p1: "parseInt10 (js ''1699990000000'') = Some 1699990000000"
    by (simp add: parseInt10_def isStrWhiteSpaceChar_def isDecimalDigit_def)
  have p2: "parseInt10 (js ''1699999000000'') = Some 1699999000000"
    by (simp add: parseInt10_def isStrWhiteSpaceChar_def isDecimalDigit_def)
  show ?thesis
    using h p1 p2
      C2_isMessageExpired[of 1700000000000 "Some (js ''1699990000000'')" "js ''soon''"]
      C2_isMessageExpired[of 1700000000000 "Some (js ''1699999000000'')" "js ''soon''"]
    by simp
qed

section \<open>The cleanup of the dedupe cache\<close>

text \<open>
  Claim C8. \<open>isDuplicateMessage\<close> leaves the map alone for a known id; for a new id it
  appends the entry and runs the cleanup only when the map then holds more than 100
  entries (it held at least 100 before). The cleanup keeps exactly the entries whose age
  does not exceed 60000 ms and removes the others. So once an id's entry is older than
  the TTL and a cleanup has run, the id is new again: \<open>isDuplicateMessage\<close> returns
  false for it.
\<close>

theorem C8_cleanup:
  assumes "Map_wf pm"
  shows "(Map_has pm k \<longrightarrow> isDuplicateMessage t c k pm = (True, pm))
    \<and> (\<not> Map_has pm k \<and> Map_size pm < 100 \<longrightarrow>
          isDuplicateMessage t c k pm = (False, pm @ [(k, t)]))
    \<and> (\<not> Map_has pm k \<and> 100 \<le> Map_size pm \<longrightarrow>
          isDuplicateMessage t c k pm =
            (False, filter (\<lambda>e. \<not> c - snd e > 60 * 1000) (pm @ [(k, t)])))
    \<and> cleanupDedupeCache now pm = filter (\<lambda>e. \<not> now - snd e > 60 * 1000) pm
    \<and> (Map_get pm k = Some t0 \<and> now - t0 > 60 * 1000 \<longrightarrow>
          fst (isDuplicateMessage t c k (cleanupDedupeCache now pm)) = False)"
proof -
  have fresh: "\<not> Map_has pm k \<Longrightarrow> Map_set pm k t = pm @ [(k, t)]"
    by (simp add: Map_has_def Map_set_fresh)
  have wf': "Map_wf (pm @ [(k, t)])" if "\<not> Map_has pm k"
    using Map_wf_set[OF assms, of k t] fresh[OF that] by simp
  have a: "Map_has pm k \<longrightarrow> isDuplicateMessage t c k pm = (True, pm)"
    by (simp add: isDuplicateMessage_def)
  have b: "\<not> Map_has pm k \<and> Map_size pm < 100 \<longrightarrow>
          isDuplicateMessage t c k pm = (False, pm @ [(k, t)])"
    using fresh by (simp add: isDuplicateMessage_def Let_def Map_size_def)
  have c: "\<not> Map_has pm k \<and> 100 \<le> Map_size pm \<longrightarrow>
          isDuplicateMessage t c k pm =
            (False, filter (\<lambda>e. \<not> c - snd e > 60 * 1000) (pm @ [(k, t)]))"
    using fresh cleanupDedupeCache_filter[OF wf', of c]
    by (simp add: isDuplicateMessage_def Let_def Map_size_def MESSAGE_DEDUPE_TTL_MS_def)
  have d: "cleanupDedupeCache now pm = filter (\<lambda>e. \<not> now - snd e > 60 * 1000) pm"
    using cleanupDedupeCache_filter[OF assms] by (simp add: MESSAGE_DEDUPE_TTL_MS_def)
  have e: "Map_get pm k = Some t0 \<and> now - t0 > 60 * 1000 \<longrightarrow>
          fst (isDuplicateMessage t c k (cleanupDedupeCache now pm)) = False"
    using Map_get_cleanup[OF assms, of now k]
    by (simp add: isDuplicateMessage_def Let_def Map_has_def MESSAGE_DEDUPE_TTL_MS_def)
  from a b c d e show ?thesis by blast
qed

theorem C8_cleanup_witness:
  "Map_wf (map (\<lambda>i. (replicate i (97::nat), 0::int)) [0..<100])
   \<and> \<not> Map_has (map (\<lambda>i. (replicate i (97::nat), 0::int)) [0..<100]) [98]
   \<and> 100 \<le> Map_size (map (\<lambda>i. (replicate i (97::nat), 0::int)) [0..<100])
   \<and> isDuplicateMessage 70000 70001 [98] (map (\<lambda>i. (replicate i 97, 0)) [0..<100])
       = (False, [([98], 70000)])
   \<and> fst (isDuplicateMessage 70002 70003 (replicate 5 97) [([98], 70000)]) = False
   \<and> isDuplicateMessage 70000 70001 (js ''E1'') [(js ''E1'', 0)] = (True, [(js ''E1'', 0)])
   \<and> isDuplicateMessage 70000 70001 (js ''E2'') [(js ''E1'', 0)]
       = (False, [(js ''E1'', 0), (js ''E2'', 70000)])
   \<and> cleanupDedupeCache 70001 [(js ''E1'', 0), (js ''E2'', 70000)] = [(js ''E2'', 70000)]
   \<and> fst (isDuplicateMessage 70002 70003 (js ''E1'')
            (cleanupDedupeCache 70001 [(js ''E1'', 0), (js ''E2'', 70000)])) = False"
proof -
  let ?pm = "map (\<lambda>i. (replicate i (97::nat), 0::int)) [0..<100]"
  have inj: "inj (\<lambda>i::nat. replicate i (97::nat))"
    by (rule injI) (metis length_replicate)
  have wf: "Map_wf ?pm"
    by (rule Map_wf_inj[OF inj]) simp
  have "[98::nat] \<notin> fst ` set ?pm"
    by (auto simp: image_iff Cons_replicate_eq)
  then have "Map_get ?pm [98] = None"
    using Map_get_None_iff[of ?pm "[98]"] by blast
  then have fresh: "\<not> Map_has ?pm [98]"
    unfolding Map_has_def by blast
  have size: "100 \<le> Map_size ?pm"
    by (simp add: Map_size_def)
  have flt: "filter (\<lambda>e. \<not> 70001 - snd e > 60 * 1000) (?pm @ [([98], 70000)]) = [([98], 70000)]"
    by (simp add: filter_map comp_def)
  have again: "fst (isDuplicateMessage 70002 70003 (replicate 5 97) [([98], 70000)]) = False"
    by (simp add: isDuplicateMessage_def Map_has_def Let_def Cons_replicate_eq)
  from C8_cleanup[OF wf, of "[98]" 70000 70001 0 0] fresh size
  have "isDuplicateMessage 70000 70001 [98] ?pm
          = (False, filter (\<lambda>e. \<not> 70001 - snd e > 60 * 1000) (?pm @ [([98], 70000)]))"
    by blast
  then have r: "isDuplicateMessage 70000 70001 [98] ?pm = (False, [([98], 70000)])"
    by (simp only: flt)
  let ?one = "[(js ''E1'', 0::int)]"
  let ?two = "[(js ''E1'', 0::int), (js ''E2'', 70000)]"
  have wf1: "Map_wf ?one" by (simp add: Map_wf_def)
  have wf2: "Map_wf ?two" by (simp add: Map_wf_def)
  have has: "Map_has ?one (js ''E1'')" by (simp add: Map_has_def)
  have hasnt: "\<not> Map_has ?one (js ''E2'') \<and> Map_size ?one < 100"
    by (simp add: Map_has_def Map_size_def)
  have old: "Map_get ?two (js ''E1'') = Some 0 \<and> (70001::int) - 0 > 60 * 1000"
    by simp
  from C8_cleanup[OF wf1, where k = "js ''E1''" and t = 70000 and c = 70001] has
  have k1: "isDuplicateMessage 70000 70001 (js ''E1'') ?one = (True, ?one)"
    by blast
  from C8_cleanup[OF wf1, where k = "js ''E2''" and t = 70000 and c = 70001] hasnt
  have k2: "isDuplicateMessage 70000 70001 (js ''E2'') ?one = (False, ?one @ [(js ''E2'', 70000)])"
    by blast
  from C8_cleanup[OF wf2, where now = 70001]
  have "cleanupDedupeCache 70001 ?two = filter (\<lambda>e. \<not> 70001 - snd e > 60 * 1000) ?two"
    by blast
  then have k3: "cleanupDedupeCache 70001 ?two = [(js ''E2'', 70000)]"
    by simp
  from C8_cleanup[OF wf2, where now = 70001 and k = "js ''E1''" and ?t0.0 = 0
      and t = 70002 and c = 70003] old
  have k4: "fst (isDuplicateMessage 70002 70003 (js ''E1'') (cleanupDedupeCache 70001 ?two)) = False"
    by blast
  from k2 have k2': "isDuplicateMessage 70000 70001 (js ''E2'') ?one = (False, ?two)"
    by simp
  show ?thesis using wf fresh size r again k1 k2' k3 k4 by blast
qed

lemma receive_duplicate:
  "message data = Some m \<Longrightarrow> Map_has (processedMessages w) (or_empty (message_id m)) \<Longrightarrow>
   im_message_receive_v1 options clk data w = (EmptyObject, w)"
  by (simp add: im_message_receive_v1_def Let_def isDuplicateMessage_def)

section \<open>Deduplication\<close>

text \<open>
  Claim C1. The first call of \<open>isDuplicateMessage\<close> for an id returns false and records
  the id with the time of the call; every later call for the id returns true, as long as
  the clock readings in between stay within 60000 ms of that time. So when an event id
  arrives again within the TTL, the handler drops the second occurrence and leaves the
  state as it is; among events that arrive within the TTL of each other, at most one
  callback is queued for an id, and \<open>onMessage\<close> runs at most once for it.
\<close>

theorem C1_dedupe:
  assumes wf: "Map_wf pm" and wfw: "Map_wf (processedMessages w)"
  shows
    "(\<not> Map_has pm eid \<and> c0 - t0 \<le> 60 * 1000
        \<and> (\<forall>call \<in> set calls. fst (snd call) - t0 \<le> 60 * 1000) \<longrightarrow>
        fst (isDuplicateMessage t0 c0 eid pm) = False
        \<and> Map_get (snd (isDuplicateMessage t0 c0 eid pm)) eid = Some t0
        \<and> fst (isDuplicateMessage t c eid
                 (isDuplicateMessage_calls calls (snd (isDuplicateMessage t0 c0 eid pm)))) = True)
     \<and> (message data0 = Some m0 \<and> message data1 = Some m1
        \<and> or_empty (message_id m1) = or_empty (message_id m0)
        \<and> \<not> Map_has (processedMessages w) (or_empty (message_id m0))
        \<and> (\<forall>ev \<in> set ((clk0, data0) # evs). now_cleanup (fst ev) - now_set clk0 \<le> 60 * 1000) \<longrightarrow>
        im_message_receive_v1 options clk1 data1 (receive_all options ((clk0, data0) # evs) w)
          = (EmptyObject, receive_all options ((clk0, data0) # evs) w))
     \<and> ((\<forall>ev \<in> set evs. \<forall>ev' \<in> set evs. now_cleanup (fst ev') - now_set (fst ev) \<le> 60 * 1000) \<longrightarrow>
        dispatches eid (receive_all options evs w) \<le> dispatches eid w + 1)"
proof (intro conjI impI)
  assume a: "\<not> Map_has pm eid \<and> c0 - t0 \<le> 60 * 1000
        \<and> (\<forall>call \<in> set calls. fst (snd call) - t0 \<le> 60 * 1000)"
  let ?pm1 = "snd (isDuplicateMessage t0 c0 eid pm)"
  show "fst (isDuplicateMessage t0 c0 eid pm) = False"
    using isDuplicateMessage_first(1)[OF wf] a by blast
  show rec: "Map_get ?pm1 eid = Some t0"
    using isDuplicateMessage_first(2)[OF wf, of eid c0 t0] a
    by (simp add: MESSAGE_DEDUPE_TTL_MS_def)
  have "Map_get (isDuplicateMessage_calls calls ?pm1) eid = Some t0"
    using a by (intro isDuplicateMessage_calls_keeps Map_wf_isDuplicateMessage wf rec)
      (simp add: MESSAGE_DEDUPE_TTL_MS_def)
  then show "fst (isDuplicateMessage t c eid (isDuplicateMessage_calls calls ?pm1)) = True"
    by (simp add: isDuplicateMessage_known)
next
  assume a: "message data0 = Some m0 \<and> message data1 = Some m1
        \<and> or_empty (message_id m1) = or_empty (message_id m0)
        \<and> \<not> Map_has (processedMessages w) (or_empty (message_id m0))
        \<and> (\<forall>ev \<in> set ((clk0, data0) # evs). now_cleanup (fst ev) - now_set clk0 \<le> 60 * 1000)"
  let ?k = "or_empty (message_id m0)"
  let ?w1 = "snd (im_message_receive_v1 options clk0 data0 w)"
  have own: "now_cleanup clk0 - now_set clk0 \<le> MESSAGE_DEDUPE_TTL_MS"
    using a by (simp add: MESSAGE_DEDUPE_TTL_MS_def)
  have rest: "\<forall>ev \<in> set evs. now_cleanup (fst ev) - now_set clk0 \<le> MESSAGE_DEDUPE_TTL_MS"
    using a by (simp add: MESSAGE_DEDUPE_TTL_MS_def)
  have "Map_get (processedMessages ?w1) ?k = Some (now_set clk0)"
    using isDuplicateMessage_first(2)[OF wfw, of ?k "now_cleanup clk0" "now_set clk0"] a own
    by (simp add: receive_processedMessages)
  from receive_all_known[OF receive_wf[OF wfw] this rest, of options]
  have "Map_get (processedMessages (receive_all options ((clk0, data0) # evs) w)) ?k
          = Some (now_set clk0)"
    by simp
  then have "Map_has (processedMessages (receive_all options ((clk0, data0) # evs) w))
               (or_empty (message_id m1))"
    using a by (simp add: Map_has_def)
  with a show "im_message_receive_v1 options clk1 data1 (receive_all options ((clk0, data0) # evs) w)
          = (EmptyObject, receive_all options ((clk0, data0) # evs) w)"
    using receive_duplicate[of data1 m1] by blast
next
  assume "\<forall>ev \<in> set evs. \<forall>ev' \<in> set evs. now_cleanup (fst ev') - now_set (fst ev) \<le> 60 * 1000"
  then show "dispatches eid (receive_all options evs w) \<le> dispatches eid w + 1"
    using receive_all_at_most_once[OF wfw, of evs eid options]
    by (simp add: MESSAGE_DEDUPE_TTL_MS_def)
qed

lemmas eval_defs =
  JSON_parse_def isJSONWhiteSpace_def isDecimalDigit_def isStrWhiteSpaceChar_def
  parseInt10_def isMessageExpired_def MESSAGE_EXPIRE_TTL_MS_def MESSAGE_DEDUPE_TTL_MS_def
  isDuplicateMessage_def Map_has_def Map_size_def Let_def
  im_message_receive_v1_def parse_text_def to_FeishuMessage_def or_empty_def template_str_def
  logger_info_def logger_error_def emit_def initial_world_def scenario_options_def
  scenario_event_def at_time_def

theorem C1_dedupe_witness:
  "Map_wf ([] :: int js_map) \<and> Map_wf (processedMessages initial_world)
   \<and> \<not> Map_has ([] :: int js_map) (js ''E1'')
   \<and> fst (isDuplicateMessage 2000 2000 (js ''E1'') []) = False
   \<and> fst (isDuplicateMessage 2900 2900 (js ''E1'')
            (isDuplicateMessage_calls [(2500, 2500, js ''E2'')]
               (snd (isDuplicateMessage 2000 2000 (js ''E1'') [])))) = True
   \<and> im_message_receive_v1 scenario_options (at_time 2900)
         (scenario_event (js ''E1'') (js ''1500'') (js ''text'') (js ''hello''))
         (receive_all scenario_options
            [(at_time 2000, scenario_event (js ''E1'') (js ''1500'') (js ''text'') (js ''hello''))]
            initial_world)
       = (EmptyObject,
          receive_all scenario_options
            [(at_time 2000, scenario_event (js ''E1'') (js ''1500'') (js ''text'') (js ''hello''))]
            initial_world)
   \<and> dispatches (js ''E1'')
        (receive_all scenario_options
           [(at_time 2000, scenario_event (js ''E1'') (js ''1500'') (js ''text'') (js ''hello'')),
            (at_time 2900, scenario_event (js ''E1'') (js ''1500'') (js ''text'') (js ''hello''))]
           initial_world) \<le> dispatches (js ''E1'') initial_world + 1
   \<and> dispatches (js ''E1'') initial_world = 0
   \<and> dispatches (js ''E1'')
        (receive_all scenario_options
           [(at_time 2000, scenario_event (js ''E1'') (js ''1500'') (js ''text'') (js ''hello'')),
            (at_time 2900, scenario_event (js ''E1'') (js ''1500'') (js ''text'') (js ''hello''))]
           initial_world) = 1"
proof -
  let ?ev = "scenario_event (js ''E1'') (js ''1500'') (js ''text'') (js ''hello'')"
  let ?m = "\<lparr>message_id = Some (js ''E1''), create_time = Some (js ''1500''),
             chat_id = Some (js ''oc_1''), chat_type = Some (js ''p2p''),
             message_type = Some (js ''text''), raw_content = Some (js ''hello'')\<rparr>"
  have wf: "Map_wf ([] :: int js_map)" by (simp add: Map_wf_def)
  have wfw: "Map_wf (processedMessages initial_world)"
    by (simp add: Map_wf_def initial_world_def)
  have fresh: "\<not> Map_has ([] :: int js_map) (js ''E1'')" by (simp add: Map_has_def)
  have win: "(2000::int) - 2000 \<le> 60 * 1000
      \<and> (\<forall>call \<in> set [(2500::int, 2500::int, js ''E2'')]. fst (snd call) - 2000 \<le> 60 * 1000)"
    by simp
  have m: "message ?ev = Some ?m" by (simp add: scenario_event_def)
  have same: "or_empty (message_id ?m) = or_empty (message_id ?m)" by simp
  have freshw: "\<not> Map_has (processedMessages initial_world) (or_empty (message_id ?m))"
    by (simp add: Map_has_def initial_world_def)
  have win2: "\<forall>ev \<in> set ((at_time 2000, ?ev) # []).
      now_cleanup (fst ev) - now_set (at_time 2000) \<le> 60 * 1000"
    by (simp add: at_time_def)
  have win3: "\<forall>ev \<in> set [(at_time 2000, ?ev), (at_time 2900, ?ev)].
      \<forall>ev' \<in> set [(at_time 2000, ?ev), (at_time 2900, ?ev)].
        now_cleanup (fst ev') - now_set (fst ev) \<le> 60 * 1000"
    by (simp add: at_time_def)
  note inst = C1_dedupe[OF wf wfw, where eid = "js ''E1''" and ?t0.0 = 2000 and ?c0.0 = 2000
      and calls = "[(2500, 2500, js ''E2'')]" and t = 2900 and c = 2900
      and ?data0.0 = ?ev and ?data1.0 = ?ev and ?m0.0 = ?m and ?m1.0 = ?m
      and ?clk0.0 = "at_time 2000" and ?clk1.0 = "at_time 2900" and options = scenario_options]
  from inst[where evs = "[]"] fresh win
  have a: "fst (isDuplicateMessage 2000 2000 (js ''E1'') []) = False
     \<and> fst (isDuplicateMessage 2900 2900 (js ''E1'')
            (isDuplicateMessage_calls [(2500, 2500, js ''E2'')]
               (snd (isDuplicateMessage 2000 2000 (js ''E1'') [])))) = True"
    by blast
  from inst[where evs = "[]"] m same freshw win2
  have b: "im_message_receive_v1 scenario_options (at_time 2900) ?ev
         (receive_all scenario_options [(at_time 2000, ?ev)] initial_world)
       = (EmptyObject, receive_all scenario_options [(at_time 2000, ?ev)] initial_world)"
    by blast
  from inst[where evs = "[(at_time 2000, ?ev), (at_time 2900, ?ev)]"] win3
  have c: "dispatches (js ''E1'')
        (receive_all scenario_options [(at_time 2000, ?ev), (at_time 2900, ?ev)] initial_world)
        \<le> dispatches (js ''E1'') initial_world + 1"
    by blast
  have d: "dispatches (js ''E1'') initial_world = 0"
    by (simp add: dispatches_def initial_world_def)
  have e: "dispatches (js ''E1'')
        (receive_all scenario_options [(at_time 2000, ?ev), (at_time 2900, ?ev)] initial_world) = 1"
    by (simp add: eval_defs dispatches_def)
  from wf wfw fresh a b c d e show ?thesis by blast
qed

lemma receive_ack: "fst (im_message_receive_v1 options clk data w) = EmptyObject"
  by (simp add: im_message_receive_v1_def Let_def split: option.splits)

section \<open>The order of the two checks\<close>

text \<open>
  Claim C3. The handler runs the dedupe check before the staleness check. An event whose
  id is already recorded is dropped with no log line and no other change of state, whether
  it is expired or not. An event that is new but expired is dropped after its id has been
  recorded: nothing is queued, and the logger (when the gateway was given one) receives
  one informational line, which contains the event's content.
\<close>

theorem C3_ordering:
  assumes "message data = Some m"
  shows
    "(Map_has (processedMessages w) (or_empty (message_id m)) \<longrightarrow>
        im_message_receive_v1 options clk data w = (EmptyObject, w))
     \<and> (\<not> Map_has (processedMessages w) (or_empty (message_id m))
         \<and> isMessageExpired (now_expired clk) (create_time m) \<longrightarrow>
        fst (im_message_receive_v1 options clk data w) = EmptyObject
        \<and> processedMessages (snd (im_message_receive_v1 options clk data w))
            = snd (isDuplicateMessage (now_set clk) (now_cleanup clk) (or_empty (message_id m))
                     (processedMessages w))
        \<and> immediates (snd (im_message_receive_v1 options clk data w)) = immediates w
        \<and> effects (snd (im_message_receive_v1 options clk data w))
            = effects w @
              (if logger options
               then [LoggerInfo (js ''Skipping expired message '' @ template_str (raw_content m)
                       @ js '', create_time: '' @ template_str (create_time m))]
               else [])
        \<and> (\<forall>c. raw_content m = Some c \<longrightarrow> template_str (raw_content m) = c))"
proof (intro conjI impI)
  assume "Map_has (processedMessages w) (or_empty (message_id m))"
  with assms show "im_message_receive_v1 options clk data w = (EmptyObject, w)"
    by (rule receive_duplicate)
next
  assume a: "\<not> Map_has (processedMessages w) (or_empty (message_id m))
         \<and> isMessageExpired (now_expired clk) (create_time m)"
  show "fst (im_message_receive_v1 options clk data w) = EmptyObject"
    by (rule receive_ack)
  show "processedMessages (snd (im_message_receive_v1 options clk data w))
            = snd (isDuplicateMessage (now_set clk) (now_cleanup clk) (or_empty (message_id m))
                     (processedMessages w))"
    using assms by (simp add: receive_processedMessages)
  have nd: "fst (isDuplicateMessage (now_set clk) (now_cleanup clk) (or_empty (message_id m))
                     (processedMessages w)) = False"
    using a by (simp add: isDuplicateMessage_def Let_def)
  show "immediates (snd (im_message_receive_v1 options clk data w)) = immediates w"
    using assms a nd by (simp add: im_message_receive_v1_def Let_def)
  show "effects (snd (im_message_receive_v1 options clk data w))
            = effects w @
              (if logger options
               then [LoggerInfo (js ''Skipping expired message '' @ template_str (raw_content m)
                       @ js '', create_time: '' @ template_str (create_time m))]
               else [])"
    using assms a nd by (simp add: im_message_receive_v1_def Let_def logger_info_def emit_def)
  show "\<forall>c. raw_content m = Some c \<longrightarrow> template_str (raw_content m) = c"
    by (simp add: template_str_def)
qed


theorem C3_ordering_witness:
  "Map_has (processedMessages (initial_world\<lparr>processedMessages := [(js ''E9'', 5)]\<rparr>)) (js ''E9'')
   \<and> im_message_receive_v1 scenario_options (at_time 2401000)
        (scenario_event (js ''E9'') (js ''1000'') (js ''text'') (js ''late''))
        (initial_world\<lparr>processedMessages := [(js ''E9'', 5)]\<rparr>)
       = (EmptyObject, initial_world\<lparr>processedMessages := [(js ''E9'', 5)]\<rparr>)
   \<and> \<not> Map_has (processedMessages initial_world) (js ''E9'')
   \<and> isMessageExpired 2401000 (Some (js ''1000''))
   \<and> effects (snd (im_message_receive_v1 scenario_options (at_time 2401000)
        (scenario_event (js ''E9'') (js ''1000'') (js ''text'') (js ''late'')) initial_world))
       = [LoggerInfo (js ''Skipping expired message late, create_time: 1000'')]
   \<and> immediates (snd (im_message_receive_v1 scenario_options (at_time 2401000)
        (scenario_event (js ''E9'') (js ''1000'') (js ''text'') (js ''late'')) initial_world))
       = []
   \<and> processedMessages (snd (im_message_receive_v1 scenario_options (at_time 2401000)
        (scenario_event (js ''E9'') (js ''1000'') (js ''text'') (js ''late'')) initial_world))
       = [(js ''E9'', 2401000)]"
proof -
  let ?m = "\<lparr>message_id = Some (js ''E9''), create_time = Some (js ''1000''),
             chat_id = Some (js ''oc_1''), chat_type = Some (js ''p2p''),
             message_type = Some (js ''text''), raw_content = Some (js ''late'')\<rparr>"
  let ?data = "scenario_event (js ''E9'') (js ''1000'') (js ''text'') (js ''late'')"
  let ?w = "initial_world\<lparr>processedMessages := [(js ''E9'', 5)]\<rparr>"
  have m: "message ?data = Some ?m" by (simp add: scenario_event_def)
  have known: "Map_has (processedMessages ?w) (or_empty (message_id ?m))"
    by (simp add: Map_has_def or_empty_def)
  have fresh: "\<not> Map_has (processedMessages initial_world) (or_empty (message_id ?m))"
    by (simp add: Map_has_def or_empty_def initial_world_def)
  have old: "isMessageExpired (now_expired (at_time 2401000)) (create_time ?m)"
    by (simp add: eval_defs)
  from C3_ordering[OF m, of ?w scenario_options "at_time 2401000"] known
  have dup: "im_message_receive_v1 scenario_options (at_time 2401000) ?data ?w = (EmptyObject, ?w)"
    by blast
  from C3_ordering[OF m, of initial_world scenario_options "at_time 2401000"] fresh old
  have exp: "processedMessages (snd (im_message_receive_v1 scenario_options (at_time 2401000) ?data initial_world))
            = snd (isDuplicateMessage (now_set (at_time 2401000)) (now_cleanup (at_time 2401000))
                     (or_empty (message_id ?m)) (processedMessages initial_world))"
    "immediates (snd (im_message_receive_v1 scenario_options (at_time 2401000) ?data initial_world))
       = immediates initial_world"
    "effects (snd (im_message_receive_v1 scenario_options (at_time 2401000) ?data initial_world))
            = effects initial_world @
              (if logger scenario_options
               then [LoggerInfo (js ''Skipping expired message '' @ template_str (raw_content ?m)
                       @ js '', create_time: '' @ template_str (create_time ?m))]
               else [])"
    by blast+
  show ?thesis
    using known fresh old dup
    by (simp add: exp) (simp add: eval_defs)
qed

lemma text_field_to_FeishuMessage: "text_field (to_FeishuMessage data m mid) = None"
  by (simp add: to_FeishuMessage_def)

lemma receive_admitted:
  assumes "message data = Some m"
    and "\<not> Map_has (processedMessages w) (or_empty (message_id m))"
    and "\<not> isMessageExpired (now_expired clk) (create_time m)"
  shows "im_message_receive_v1 options clk data w =
    (EmptyObject,
     w\<lparr>processedMessages :=
          snd (isDuplicateMessage (now_set clk) (now_cleanup clk) (or_empty (message_id m))
                 (processedMessages w)),
       immediates := immediates w
          @ [(options, parse_text (to_FeishuMessage data m (or_empty (message_id m))))]\<rparr>)"
proof -
  have "fst (isDuplicateMessage (now_set clk) (now_cleanup clk) (or_empty (message_id m))
                     (processedMessages w)) = False"
    using assms(2) by (simp add: isDuplicateMessage_def Let_def)
  with assms show ?thesis
    by (simp add: im_message_receive_v1_def Let_def)
qed

section \<open>Normalization of text events\<close>

text \<open>
  Claim C7. For an event of type text the handler parses the content as JSON and takes
  the property \<open>text\<close> of the result: the content \<open>{"text":"hi"}\<close> gives the text
  field \<open>hi\<close>. When the content is not JSON (\<open>not-json\<close>) the message keeps no text
  field, and the event is queued for dispatch all the same.
\<close>

theorem C7_text_extraction:
  \<open>(messageType fm = js ''text'' \<and> JSON_parse (content fm) = Inl e \<longrightarrow> parse_text fm = fm)
   \<and> (messageType fm = js ''text'' \<and> JSON_parse (content fm) = Inr (JObj kvs)
        \<and> Map_get (rev kvs) (js ''text'') = Some v \<longrightarrow>
        parse_text fm = fm\<lparr>text_field := Some v\<rparr>)
   \<and> (messageType fm \<noteq> js ''text'' \<longrightarrow> parse_text fm = fm)
   \<and> JSON_parse (js ''{"text":"hi"}'') = Inr (JObj [(js ''text'', JStr (js ''hi''))])
   \<and> JSON_parse (js ''not-json'') = Inl SyntaxError
   \<and> (message data = Some m
        \<and> \<not> Map_has (processedMessages w) (or_empty (message_id m))
        \<and> \<not> isMessageExpired (now_expired clk) (create_time m) \<longrightarrow>
        text_field (to_FeishuMessage data m (or_empty (message_id m))) = None
        \<and> immediates (snd (im_message_receive_v1 options clk data w))
            = immediates w
              @ [(options, parse_text (to_FeishuMessage data m (or_empty (message_id m))))])\<close>
proof (intro conjI impI)
  show \<open>JSON_parse (js ''{"text":"hi"}'') = Inr (JObj [(js ''text'', JStr (js ''hi''))])\<close>
    by (simp add: JSON_parse_def isJSONWhiteSpace_def isDecimalDigit_def)
  show "JSON_parse (js ''not-json'') = Inl SyntaxError"
    by (simp add: JSON_parse_def isJSONWhiteSpace_def isDecimalDigit_def)
next
  assume "messageType fm = js ''text'' \<and> JSON_parse (content fm) = Inl e"
  then show "parse_text fm = fm" by (simp add: parse_text_def)
next
  assume "messageType fm = js ''text'' \<and> JSON_parse (content fm) = Inr (JObj kvs)
        \<and> Map_get (rev kvs) (js ''text'') = Some v"
  then show "parse_text fm = fm\<lparr>text_field := Some v\<rparr>" by (simp add: parse_text_def)
next
  assume "messageType fm \<noteq> js ''text''"
  then show "parse_text fm = fm" by (simp add: parse_text_def)
next
  assume a: "message data = Some m
        \<and> \<not> Map_has (processedMessages w) (or_empty (message_id m))
        \<and> \<not> isMessageExpired (now_expired clk) (create_time m)"
  show "text_field (to_FeishuMessage data m (or_empty (message_id m))) = None"
    by (rule text_field_to_FeishuMessage)
  show "immediates (snd (im_message_receive_v1 options clk data w))
            = immediates w
              @ [(options, parse_text (to_FeishuMessage data m (or_empty (message_id m))))]"
    using a by (simp add: receive_admitted)
qed

theorem C7_text_extraction_witness:
  \<open>map (text_field \<circ> snd)
      (immediates (snd (im_message_receive_v1 scenario_options (at_time 2000)
         (scenario_event (js ''E1'') (js ''1500'') (js ''text'') (js ''{"text":"hi"}''))
         initial_world)))
     = [Some (JStr (js ''hi''))]
   \<and> map (text_field \<circ> snd)
      (immediates (snd (im_message_receive_v1 scenario_options (at_time 2000)
         (scenario_event (js ''E1'') (js ''1500'') (js ''text'') (js ''not-json''))
         initial_world)))
     = [None]
   \<and> map (content \<circ> snd)
      (immediates (snd (im_message_receive_v1 scenario_options (at_time 2000)
         (scenario_event (js ''E1'') (js ''1500'') (js ''text'') (js ''not-json''))
         initial_world)))
     = [js ''not-json'']
   \<and> parse_text (scenario_message (js ''image'') None) = scenario_message (js ''image'') None\<close>
proof -
  have "messageType (scenario_message (js ''image'') None) \<noteq> js ''text''"
    by (simp add: scenario_message_def)
  with C7_text_extraction[where fm = "scenario_message (js ''image'') None"]
  have img: "parse_text (scenario_message (js ''image'') None) = scenario_message (js ''image'') None"
    by blast
  let ?m = "\<lambda>body. \<lparr>message_id = Some (js ''E1''), create_time = Some (js ''1500''),
             chat_id = Some (js ''oc_1''), chat_type = Some (js ''p2p''),
             message_type = Some (js ''text''), raw_content = Some body\<rparr>"
  let ?data = "\<lambda>body. scenario_event (js ''E1'') (js ''1500'') (js ''text'') body"
  let ?fm = "\<lambda>body. to_FeishuMessage (?data body) (?m body) (or_empty (message_id (?m body)))"
  have m: "message (?data body) = Some (?m body)" for body by (simp add: scenario_event_def)
  have fresh: "\<not> Map_has (processedMessages initial_world) (or_empty (message_id (?m body)))" for body
    by (simp add: Map_has_def or_empty_def initial_world_def)
  have young: "\<not> isMessageExpired (now_expired (at_time 2000)) (create_time (?m body))" for body
    by (simp add: eval_defs)
  have ty: "messageType (?fm body) = js ''text''" "content (?fm body) = body" for body
    by (simp_all add: to_FeishuMessage_def or_empty_def)
  have q: "immediates (snd (im_message_receive_v1 scenario_options (at_time 2000) (?data body) initial_world))
      = [(scenario_options, parse_text (?fm body))]" for body
    using C7_text_extraction[where data = "?data body" and m = "?m body" and w = initial_world
        and clk = "at_time 2000" and options = scenario_options]
      m[of body] fresh[of body] young[of body]
    by (simp add: initial_world_def)
  have hi: \<open>parse_text (?fm (js ''{"text":"hi"}''))
      = (?fm (js ''{"text":"hi"}''))\<lparr>text_field := Some (JStr (js ''hi''))\<rparr>\<close>
    using C7_text_extraction[where fm = \<open>?fm (js ''{"text":"hi"}'')\<close>
        and kvs = "[(js ''text'', JStr (js ''hi''))]" and v = "JStr (js ''hi'')"]
      ty[of \<open>js ''{"text":"hi"}''\<close>]
    by simp
  have bad: "parse_text (?fm (js ''not-json'')) = ?fm (js ''not-json'')"
    using C7_text_extraction[where fm = "?fm (js ''not-json'')" and e = SyntaxError]
      ty[of "js ''not-json''"]
    by simp
  show ?thesis
    unfolding q hi bad img
    by (simp add: to_FeishuMessage_def or_empty_def)
qed

lemma receive_effects:
  "effects (snd (im_message_receive_v1 options clk data w)) = effects w
   \<or> (\<exists>line. effects (snd (im_message_receive_v1 options clk data w)) = effects w @ [LoggerInfo line])"
  by (simp add: im_message_receive_v1_def Let_def logger_info_def emit_def split: option.splits)

lemma receive_onMessage_irrelevant:
  "fst (im_message_receive_v1 (options\<lparr>onMessage := f\<rparr>) clk data w)
     = fst (im_message_receive_v1 options clk data w)
   \<and> processedMessages (snd (im_message_receive_v1 (options\<lparr>onMessage := f\<rparr>) clk data w))
     = processedMessages (snd (im_message_receive_v1 options clk data w))
   \<and> effects (snd (im_message_receive_v1 (options\<lparr>onMessage := f\<rparr>) clk data w))
     = effects (snd (im_message_receive_v1 options clk data w))
   \<and> map snd (immediates (snd (im_message_receive_v1 (options\<lparr>onMessage := f\<rparr>) clk data w)))
     = map snd (immediates (snd (im_message_receive_v1 options clk data w)))"
  by (simp add: im_message_receive_v1_def Let_def logger_info_def emit_def split: option.splits)

lemma immediate_callback_result:
  "immediate_callback (options, fm) w =
     (Inr (),
      case onMessage options fm of
        None \<Rightarrow> emit (OnMessage fm) w
      | Some e \<Rightarrow> logger_error options (js ''Error handling message: '' @ String_exn e)
                   (emit (OnMessage fm) w))"
  by (simp add: immediate_callback_def try_catch_def await_onMessage_def split: option.splits)

lemma run_immediate_returns: "fst (run_immediate w) = Inr ()"
  by (cases "immediates w")
    (auto simp: run_immediate_def immediate_callback_def try_catch_def await_onMessage_def
      split: option.splits)

lemma run_immediate_processedMessages:
  "processedMessages (snd (run_immediate w)) = processedMessages w"
  by (cases "immediates w")
    (auto simp: run_immediate_def immediate_callback_def try_catch_def await_onMessage_def
      logger_error_def emit_def split: option.splits)

section \<open>Dispatch on a later turn\<close>

text \<open>
  Claim C9. The handler never calls \<open>onMessage\<close>: for an admitted event it queues a
  callback for a later turn of the event loop and returns its empty acknowledgment, and
  nothing it returns or leaves behind depends on what \<open>onMessage\<close> does. When the
  queued callback runs, an error thrown by \<open>onMessage\<close> is caught there and goes to the
  logger (when the gateway was given one) as an error line; the callback itself never
  throws, and it does not touch the dedupe cache.
\<close>

theorem C9_dispatch_errors:
  "fst (im_message_receive_v1 options clk data w) = EmptyObject
   \<and> (\<forall>fm. OnMessage fm \<in> set (effects (snd (im_message_receive_v1 options clk data w)))
          \<longrightarrow> OnMessage fm \<in> set (effects w))
   \<and> fst (im_message_receive_v1 (options\<lparr>onMessage := f\<rparr>) clk data w)
        = fst (im_message_receive_v1 options clk data w)
   \<and> processedMessages (snd (im_message_receive_v1 (options\<lparr>onMessage := f\<rparr>) clk data w))
        = processedMessages (snd (im_message_receive_v1 options clk data w))
   \<and> effects (snd (im_message_receive_v1 (options\<lparr>onMessage := f\<rparr>) clk data w))
        = effects (snd (im_message_receive_v1 options clk data w))
   \<and> map snd (immediates (snd (im_message_receive_v1 (options\<lparr>onMessage := f\<rparr>) clk data w)))
        = map snd (immediates (snd (im_message_receive_v1 options clk data w)))
   \<and> (message data = Some m
        \<and> \<not> Map_has (processedMessages w) (or_empty (message_id m))
        \<and> \<not> isMessageExpired (now_expired clk) (create_time m) \<longrightarrow>
        immediates (snd (im_message_receive_v1 options clk data w))
          = immediates w
            @ [(options, parse_text (to_FeishuMessage data m (or_empty (message_id m))))]
        \<and> effects (snd (im_message_receive_v1 options clk data w)) = effects w)
   \<and> (onMessage options fm = Some e \<longrightarrow>
        immediate_callback (options, fm) w
          = (Inr (), logger_error options (js ''Error handling message: '' @ String_exn e)
                       (emit (OnMessage fm) w)))
   \<and> (onMessage options fm = None \<longrightarrow>
        immediate_callback (options, fm) w = (Inr (), emit (OnMessage fm) w))
   \<and> fst (run_immediate w) = Inr ()
   \<and> processedMessages (snd (run_immediate w)) = processedMessages w"
proof (intro conjI impI allI)
  show "fst (im_message_receive_v1 options clk data w) = EmptyObject"
    by (rule receive_ack)
  fix fm'
  assume "OnMessage fm' \<in> set (effects (snd (im_message_receive_v1 options clk data w)))"
  then show "OnMessage fm' \<in> set (effects w)"
    using receive_effects[of options clk data w] by auto
next
  assume a: "message data = Some m
        \<and> \<not> Map_has (processedMessages w) (or_empty (message_id m))
        \<and> \<not> isMessageExpired (now_expired clk) (create_time m)"
  then show "immediates (snd (im_message_receive_v1 options clk data w))
          = immediates w
            @ [(options, parse_text (to_FeishuMessage data m (or_empty (message_id m))))]"
    by (simp add: receive_admitted)
  from a show "effects (snd (im_message_receive_v1 options clk data w)) = effects w"
    by (simp add: receive_admitted)
next
  assume "onMessage options fm = Some e"
  then show "immediate_callback (options, fm) w
          = (Inr (), logger_error options (js ''Error handling message: '' @ String_exn e)
                       (emit (OnMessage fm) w))"
    by (simp add: immediate_callback_result)
next
  assume "onMessage options fm = None"
  then show "immediate_callback (options, fm) w = (Inr (), emit (OnMessage fm) w)"
    by (simp add: immediate_callback_result)
qed (simp_all add: receive_onMessage_irrelevant run_immediate_returns
      run_immediate_processedMessages)


theorem C9_dispatch_errors_witness:
  "fst (im_message_receive_v1
          (scenario_options\<lparr>onMessage := \<lambda>m. Some (ErrorObject (js ''Error'') (js ''boom''))\<rparr>)
          (at_time 2000) (scenario_event (js ''E1'') (js ''1500'') (js ''image'') (js ''x''))
          initial_world) = EmptyObject
   \<and> effects (snd (im_message_receive_v1
          (scenario_options\<lparr>onMessage := \<lambda>m. Some (ErrorObject (js ''Error'') (js ''boom''))\<rparr>)
          (at_time 2000) (scenario_event (js ''E1'') (js ''1500'') (js ''image'') (js ''x''))
          initial_world)) = []
   \<and> fst (run_immediate (snd (im_message_receive_v1
          (scenario_options\<lparr>onMessage := \<lambda>m. Some (ErrorObject (js ''Error'') (js ''boom''))\<rparr>)
          (at_time 2000) (scenario_event (js ''E1'') (js ''1500'') (js ''image'') (js ''x''))
          initial_world))) = Inr ()
   \<and> map (\<lambda>e. case e of LoggerError line \<Rightarrow> line | _ \<Rightarrow> [])
       (effects (snd (run_immediate (snd (im_message_receive_v1
          (scenario_options\<lparr>onMessage := \<lambda>m. Some (ErrorObject (js ''Error'') (js ''boom''))\<rparr>)
          (at_time 2000) (scenario_event (js ''E1'') (js ''1500'') (js ''image'') (js ''x''))
          initial_world)))))
     = [[], js ''Error handling message: Error: boom'']
   \<and> immediate_callback (scenario_options, scenario_message (js ''text'') None) initial_world
     = (Inr (), emit (OnMessage (scenario_message (js ''text'') None)) initial_world)"
proof -
  have fulfilled: "onMessage scenario_options (scenario_message (js ''text'') None) = None"
    by (simp add: scenario_options_def)
  from C9_dispatch_errors[where options = scenario_options
      and fm = "scenario_message (js ''text'') None" and w = initial_world] fulfilled
  have quiet: "immediate_callback (scenario_options, scenario_message (js ''text'') None) initial_world
     = (Inr (), emit (OnMessage (scenario_message (js ''text'') None)) initial_world)"
    by blast
  let ?e = "ErrorObject (js ''Error'') (js ''boom'')"
  let ?O = "scenario_options\<lparr>onMessage := \<lambda>m. Some ?e\<rparr>"
  let ?m = "\<lparr>message_id = Some (js ''E1''), create_time = Some (js ''1500''),
             chat_id = Some (js ''oc_1''), chat_type = Some (js ''p2p''),
             message_type = Some (js ''image''), raw_content = Some (js ''x'')\<rparr>"
  let ?data = "scenario_event (js ''E1'') (js ''1500'') (js ''image'') (js ''x'')"
  let ?fm = "parse_text (to_FeishuMessage ?data ?m (or_empty (message_id ?m)))"
  let ?w1 = "snd (im_message_receive_v1 ?O (at_time 2000) ?data initial_world)"
  have m: "message ?data = Some ?m" by (simp add: scenario_event_def)
  have fresh: "\<not> Map_has (processedMessages initial_world) (or_empty (message_id ?m))"
    by (simp add: Map_has_def or_empty_def initial_world_def)
  have young: "\<not> isMessageExpired (now_expired (at_time 2000)) (create_time ?m)"
    by (simp add: eval_defs)
  have rej: "onMessage ?O fm = Some ?e" for fm by simp
  note inst = C9_dispatch_errors[where options = ?O and clk = "at_time 2000" and data = ?data
      and m = ?m and e = ?e]
  from inst[of initial_world] have ack:
    "fst (im_message_receive_v1 ?O (at_time 2000) ?data initial_world) = EmptyObject"
    by blast
  from inst[of initial_world] m fresh young have q:
    "immediates ?w1 = immediates initial_world @ [(?O, ?fm)]"
    "effects ?w1 = effects initial_world"
    by blast+
  from inst[of "?w1\<lparr>immediates := []\<rparr>" _ ?fm] rej have cb:
    "immediate_callback (?O, ?fm) (?w1\<lparr>immediates := []\<rparr>)
       = (Inr (), logger_error ?O (js ''Error handling message: '' @ String_exn ?e)
                    (emit (OnMessage ?fm) (?w1\<lparr>immediates := []\<rparr>)))"
    by blast
  have run: "run_immediate ?w1
       = (Inr (), logger_error ?O (js ''Error handling message: '' @ String_exn ?e)
                    (emit (OnMessage ?fm) (?w1\<lparr>immediates := []\<rparr>)))"
  proof -
    have "immediates ?w1 = [(?O, ?fm)]"
      using q(1) by (simp add: initial_world_def)
    then have "run_immediate ?w1 = immediate_callback (?O, ?fm) (?w1\<lparr>immediates := []\<rparr>)"
      unfolding run_immediate_def by (simp only: list.case)
    with cb show ?thesis by (simp only:)
  qed
  have loud: "fst (im_message_receive_v1 ?O (at_time 2000) ?data initial_world) = EmptyObject
   \<and> effects ?w1 = []
   \<and> fst (run_immediate ?w1) = Inr ()
   \<and> map (\<lambda>e. case e of LoggerError line \<Rightarrow> line | _ \<Rightarrow> []) (effects (snd (run_immediate ?w1)))
     = [[], js ''Error handling message: Error: boom'']"
    unfolding run
    using ack q
    by (simp add: logger_error_def emit_def scenario_options_def initial_world_def)
  from loud quiet show ?thesis by blast
qed

lemma Map_delete_absent: "Map_get m k = None \<Longrightarrow> Map_delete m k = m"
  by (induction m) (auto split: if_splits)

lemma stopGateway_absent:
  "Map_get (wsClientCache w) k = None \<Longrightarrow> stopGateway k w = (Inr (), w)"
  by (simp add: stopGateway_def)

lemma stopGateway_present:
  assumes "Map_get (wsClientCache w) k = Some c"
  shows "stopGateway k w =
     (Inr (),
      (if close c \<noteq> NotAFunction then emit (WSClientClose (ws_id c)) w
       else if stop c \<noteq> NotAFunction then emit (WSClientStop (ws_id c)) w
       else w)\<lparr>wsClientCache := Map_delete (wsClientCache w) k\<rparr>)"
  using assms
  by (cases "close c"; cases "stop c")
    (simp_all add: stopGateway_def try_catch_def call_close_def call_stop_def emit_def)

lemma stopGateway_returns: "fst (stopGateway k w) = Inr ()"
  by (cases "Map_get (wsClientCache w) k")
    (simp_all add: stopGateway_absent stopGateway_present)

lemma stopGateway_cache:
  "wsClientCache (snd (stopGateway k w)) = Map_delete (wsClientCache w) k"
  by (cases "Map_get (wsClientCache w) k")
    (simp_all add: stopGateway_absent stopGateway_present Map_delete_absent emit_def)

lemma stopGateway_wf:
  "Map_wf (wsClientCache w) \<Longrightarrow> Map_wf (wsClientCache (snd (stopGateway k w)))"
  by (simp add: stopGateway_cache Map_wf_delete)

section \<open>Stopping a gateway\<close>

text \<open>
  Claim C5. \<open>stopGateway\<close> never throws. When the registry holds a handle for the
  account it calls \<open>close\<close> when that is a function, otherwise \<open>stop\<close> when that is a
  function; whatever the call throws is discarded, and the handle is removed from the
  registry in every case. When the registry holds no handle for the account the call
  changes nothing.
\<close>

theorem C5_stopGateway:
  assumes "Map_wf (wsClientCache w)"
  shows
    "fst (stopGateway k w) = Inr ()
     \<and> (Map_get (wsClientCache w) k = None \<longrightarrow> stopGateway k w = (Inr (), w))
     \<and> (Map_get (wsClientCache w) k = Some c \<longrightarrow>
          stopGateway k w =
            (Inr (),
             w\<lparr>wsClientCache := Map_delete (wsClientCache w) k,
               effects := effects w @
                 (if close c \<noteq> NotAFunction then [WSClientClose (ws_id c)]
                  else if stop c \<noteq> NotAFunction then [WSClientStop (ws_id c)]
                  else [])\<rparr>)
          \<and> Map_get (wsClientCache (snd (stopGateway k w))) k = None
          \<and> (\<forall>k'. k' \<noteq> k \<longrightarrow>
                Map_get (wsClientCache (snd (stopGateway k w))) k' = Map_get (wsClientCache w) k'))"
proof (intro conjI impI allI)
  show "fst (stopGateway k w) = Inr ()" by (rule stopGateway_returns)
next
  assume "Map_get (wsClientCache w) k = None"
  then show "stopGateway k w = (Inr (), w)" by (rule stopGateway_absent)
next
  assume c: "Map_get (wsClientCache w) k = Some c"
  show "stopGateway k w =
            (Inr (),
             w\<lparr>wsClientCache := Map_delete (wsClientCache w) k,
               effects := effects w @
                 (if close c \<noteq> NotAFunction then [WSClientClose (ws_id c)]
                  else if stop c \<noteq> NotAFunction then [WSClientStop (ws_id c)]
                  else [])\<rparr>)"
    by (simp add: stopGateway_present[OF c] emit_def)
  show "Map_get (wsClientCache (snd (stopGateway k w))) k = None"
    using assms by (simp add: stopGateway_cache Map_get_delete)
  fix k' assume "k' \<noteq> k"
  then show "Map_get (wsClientCache (snd (stopGateway k w))) k' = Map_get (wsClientCache w) k'"
    using assms by (simp add: stopGateway_cache Map_get_delete)
qed

theorem C5_stopGateway_witness:
  "Map_wf (wsClientCache (scenario_registry (Throws (ErrorObject (js ''Error'') (js ''socket''))) Returns))
   \<and> stopGateway (js ''default'')
         (scenario_registry (Throws (ErrorObject (js ''Error'') (js ''socket''))) Returns)
       = (Inr (), initial_world\<lparr>effects := [WSClientClose 7], next_id := 8\<rparr>)
   \<and> stopGateway (js ''default'') (scenario_registry NotAFunction Returns)
       = (Inr (), initial_world\<lparr>effects := [WSClientStop 7], next_id := 8\<rparr>)
   \<and> stopGateway (js ''other'') (scenario_registry Returns Returns)
       = (Inr (), scenario_registry Returns Returns)
   \<and> Map_get (wsClientCache (snd (stopGateway (js ''default'') (scenario_registry Returns Returns))))
         (js ''other'')
       = Map_get (wsClientCache (scenario_registry Returns Returns)) (js ''other'')"
proof -
  have wf: "Map_wf (wsClientCache (scenario_registry c s))" for c s
    by (simp add: scenario_registry_def Map_wf_def)
  have present: "Map_get (wsClientCache (scenario_registry c s)) (js ''default'')
      = Some (scenario_client c s)" for c s
    by (simp add: scenario_registry_def)
  have absent: "Map_get (wsClientCache (scenario_registry c s)) (js ''other'') = None" for c s
    by (simp add: scenario_registry_def)
  let ?e = "ErrorObject (js ''Error'') (js ''socket'')"
  from C5_stopGateway[OF wf[of "Throws ?e" Returns],
      where k = "js ''default''" and c = "scenario_client (Throws ?e) Returns"]
    present
  have 1: "stopGateway (js ''default'') (scenario_registry (Throws ?e) Returns)
       = (Inr (), initial_world\<lparr>effects := [WSClientClose 7], next_id := 8\<rparr>)"
    by (simp add: scenario_registry_def scenario_client_def initial_world_def)
  from C5_stopGateway[OF wf[of NotAFunction Returns],
      where k = "js ''default''" and c = "scenario_client NotAFunction Returns"]
    present
  have 2: "stopGateway (js ''default'') (scenario_registry NotAFunction Returns)
       = (Inr (), initial_world\<lparr>effects := [WSClientStop 7], next_id := 8\<rparr>)"
    by (simp add: scenario_registry_def scenario_client_def initial_world_def)
  from C5_stopGateway[OF wf[of Returns Returns], where k = "js ''other''"] absent
  have 3: "stopGateway (js ''other'') (scenario_registry Returns Returns)
       = (Inr (), scenario_registry Returns Returns)"
    by blast
  have ne: "js ''other'' \<noteq> js ''default''" by simp
  from C5_stopGateway[OF wf[of Returns Returns],
      where k = "js ''default''" and c = "scenario_client Returns Returns"] present ne
  have 4: "Map_get (wsClientCache (snd (stopGateway (js ''default'') (scenario_registry Returns Returns))))
         (js ''other'')
       = Map_get (wsClientCache (scenario_registry Returns Returns)) (js ''other'')"
    by blast
  from wf 1 2 3 4 show ?thesis by blast
qed


lemma teardown_present:
  "Map_get (wsClientCache w) (accountId (account options)) = Some c \<Longrightarrow>
   startGateway_teardown options w = stopGateway (accountId (account options)) w"
  by (simp add: startGateway_teardown_def)

lemma teardown_absent:
  "Map_get (wsClientCache w) (accountId (account options)) = None \<Longrightarrow>
   startGateway_teardown options w = (Inr (), w)"
  by (simp add: startGateway_teardown_def)

lemma teardown_returns: "fst (startGateway_teardown options w) = Inr ()"
  by (simp add: startGateway_teardown_def Let_def stopGateway_returns)

lemma teardown_cache:
  "wsClientCache (snd (startGateway_teardown options w))
     = Map_delete (wsClientCache w) (accountId (account options))"
  by (cases "Map_get (wsClientCache w) (accountId (account options))")
    (simp_all add: startGateway_teardown_def stopGateway_cache Map_delete_absent)

lemma teardown_next_id: "next_id (snd (startGateway_teardown options w)) = next_id w"
  by (cases "Map_get (wsClientCache w) (accountId (account options))")
    (auto simp: startGateway_teardown_def stopGateway_present emit_def)

lemma connect_cache:
  "wsClientCache (snd (startGateway_connect sdk options w))
     = Map_set (wsClientCache w) (accountId (account options))
         (fst (startGateway_connect sdk options w))"
  by (simp add: startGateway_connect_def Let_def logger_info_def emit_def split: option.splits)

lemma connect_client:
  "fst (startGateway_connect sdk options w)
     = \<lparr>ws_id = next_id w, ws_appId = appId (account options),
        ws_appSecret = appSecret (account options),
        close = sdk_close sdk, stop = sdk_stop sdk\<rparr>"
  by (simp add: startGateway_connect_def Let_def)

lemma connect_effects:
  "effects (snd (startGateway_connect sdk options w))
     = effects w @ WSClientStart (next_id w)
         # (if logger options
            then [LoggerInfo (js ''logged in to feishu as '' @ appId (account options))]
            else [])"
  by (simp add: startGateway_connect_def Let_def logger_info_def emit_def split: option.splits)

lemma startGateway_unfold:
  "startGateway sdk options w =
     (Inr (fst (startGateway_connect sdk options (snd (startGateway_teardown options w)))),
      snd (startGateway_connect sdk options (snd (startGateway_teardown options w))))"
  using teardown_returns[of options w]
  by (cases "startGateway_teardown options w")
    (auto simp: startGateway_def split: prod.splits sum.splits)

lemma abort_listener_wf:
  "Map_wf (wsClientCache w) \<Longrightarrow> Map_wf (wsClientCache (snd (abort_listener l w)))"
  by (simp add: abort_listener_def stopGateway_wf)

lemma run_listeners_wf:
  "Map_wf (wsClientCache w) \<Longrightarrow> Map_wf (wsClientCache (run_listeners ls w))"
  by (induction ls arbitrary: w) (simp_all add: abort_listener_wf)

lemma abort_wf: "Map_wf (wsClientCache w) \<Longrightarrow> Map_wf (wsClientCache (abort signal w))"
  by (simp add: abort_def run_listeners_wf)

lemma receive_wsClientCache:
  "wsClientCache (snd (im_message_receive_v1 options clk data w)) = wsClientCache w"
  by (simp add: im_message_receive_v1_def Let_def split: option.splits)

lemma run_immediate_wsClientCache: "wsClientCache (snd (run_immediate w)) = wsClientCache w"
  by (cases "immediates w")
    (auto simp: run_immediate_def immediate_callback_def try_catch_def await_onMessage_def
      logger_error_def emit_def split: option.splits)

section \<open>Starting a gateway\<close>

text \<open>
  Claim C4. \<open>startGateway\<close> for an account that has a handle in the registry first
  stops that handle and removes it: after the teardown the registry has no handle for the
  account, and the call that closes the old client comes before the start of the new one.
  Only then the new handle is stored, and it is the one the registry holds for the account
  at the end. The keys of the registry stay pairwise different through the teardown, the
  start, a stop, an abort, an event and a dispatch turn: there is never more than one
  handle for an account id.
\<close>

theorem C4_startGateway:
  assumes wf: "Map_wf (wsClientCache w)"
  shows
    "startGateway sdk options w =
       (Inr (fst (startGateway_connect sdk options (snd (startGateway_teardown options w)))),
        snd (startGateway_connect sdk options (snd (startGateway_teardown options w))))
     \<and> (Map_get (wsClientCache w) (accountId (account options)) = Some old \<longrightarrow>
          startGateway_teardown options w = stopGateway (accountId (account options)) w
          \<and> Map_get (wsClientCache (snd (startGateway_teardown options w)))
                (accountId (account options)) = None
          \<and> effects (snd (startGateway sdk options w))
              = effects w
                @ (if close old \<noteq> NotAFunction then [WSClientClose (ws_id old)]
                   else if stop old \<noteq> NotAFunction then [WSClientStop (ws_id old)]
                   else [])
                @ WSClientStart (next_id w)
                  # (if logger options
                     then [LoggerInfo (js ''logged in to feishu as '' @ appId (account options))]
                     else []))
     \<and> (Map_get (wsClientCache w) (accountId (account options)) = None \<longrightarrow>
          startGateway_teardown options w = (Inr (), w))
     \<and> fst (startGateway sdk options w)
          = Inr \<lparr>ws_id = next_id w, ws_appId = appId (account options),
                 ws_appSecret = appSecret (account options),
                 close = sdk_close sdk, stop = sdk_stop sdk\<rparr>
     \<and> Map_get (wsClientCache (snd (startGateway sdk options w))) (accountId (account options))
          = Some \<lparr>ws_id = next_id w, ws_appId = appId (account options),
                   ws_appSecret = appSecret (account options),
                   close = sdk_close sdk, stop = sdk_stop sdk\<rparr>
     \<and> (\<forall>k. k \<noteq> accountId (account options) \<longrightarrow>
          Map_get (wsClientCache (snd (startGateway sdk options w))) k
            = Map_get (wsClientCache w) k)
     \<and> Map_wf (wsClientCache (snd (startGateway_teardown options w)))
     \<and> Map_wf (wsClientCache (snd (startGateway sdk options w)))
     \<and> Map_wf (wsClientCache (snd (stopGateway k' w)))
     \<and> Map_wf (wsClientCache (abort signal w))
     \<and> wsClientCache (snd (im_message_receive_v1 options clk data w)) = wsClientCache w
     \<and> wsClientCache (snd (run_immediate w)) = wsClientCache w"
proof -
  let ?k = "accountId (account options)"
  let ?w1 = "snd (startGateway_teardown options w)"
  have wf1: "Map_wf (wsClientCache ?w1)"
    using wf by (simp add: teardown_cache Map_wf_delete)
  have final: "wsClientCache (snd (startGateway sdk options w))
      = Map_set (Map_delete (wsClientCache w) ?k) ?k
          \<lparr>ws_id = next_id w, ws_appId = appId (account options),
            ws_appSecret = appSecret (account options),
            close = sdk_close sdk, stop = sdk_stop sdk\<rparr>"
    by (simp add: startGateway_unfold connect_cache connect_client teardown_cache teardown_next_id)
  have a: "Map_get (wsClientCache w) ?k = Some old \<longrightarrow>
          startGateway_teardown options w = stopGateway ?k w
          \<and> Map_get (wsClientCache ?w1) ?k = None
          \<and> effects (snd (startGateway sdk options w))
              = effects w
                @ (if close old \<noteq> NotAFunction then [WSClientClose (ws_id old)]
                   else if stop old \<noteq> NotAFunction then [WSClientStop (ws_id old)]
                   else [])
                @ WSClientStart (next_id w)
                  # (if logger options
                     then [LoggerInfo (js ''logged in to feishu as '' @ appId (account options))]
                     else [])"
  proof
    assume old: "Map_get (wsClientCache w) ?k = Some old"
    have 1: "startGateway_teardown options w = stopGateway ?k w"
      using old by (rule teardown_present)
    have 2: "Map_get (wsClientCache ?w1) ?k = None"
      using wf by (simp add: teardown_cache Map_get_delete)
    have 3: "effects ?w1 = effects w
                @ (if close old \<noteq> NotAFunction then [WSClientClose (ws_id old)]
                   else if stop old \<noteq> NotAFunction then [WSClientStop (ws_id old)]
                   else [])"
      by (simp add: 1 stopGateway_present[OF old] emit_def)
    have 4: "effects (snd (startGateway sdk options w))
        = effects ?w1 @ WSClientStart (next_id w)
            # (if logger options
               then [LoggerInfo (js ''logged in to feishu as '' @ appId (account options))]
               else [])"
      by (simp add: startGateway_unfold connect_effects teardown_next_id)
    show "startGateway_teardown options w = stopGateway ?k w
          \<and> Map_get (wsClientCache ?w1) ?k = None
          \<and> effects (snd (startGateway sdk options w))
              = effects w
                @ (if close old \<noteq> NotAFunction then [WSClientClose (ws_id old)]
                   else if stop old \<noteq> NotAFunction then [WSClientStop (ws_id old)]
                   else [])
                @ WSClientStart (next_id w)
                  # (if logger options
                     then [LoggerInfo (js ''logged in to feishu as '' @ appId (account options))]
                     else [])"
      using 1 2 unfolding 4 3 by simp
  qed
  have b: "Map_get (wsClientCache w) ?k = None \<longrightarrow> startGateway_teardown options w = (Inr (), w)"
    by (simp add: teardown_absent)
  have c: "fst (startGateway sdk options w)
          = Inr \<lparr>ws_id = next_id w, ws_appId = appId (account options),
                 ws_appSecret = appSecret (account options),
                 close = sdk_close sdk, stop = sdk_stop sdk\<rparr>"
    by (simp add: startGateway_unfold connect_client teardown_next_id)
  have d: "Map_get (wsClientCache (snd (startGateway sdk options w))) ?k
          = Some \<lparr>ws_id = next_id w, ws_appId = appId (account options),
                   ws_appSecret = appSecret (account options),
                   close = sdk_close sdk, stop = sdk_stop sdk\<rparr>"
    by (simp add: final Map_get_set)
  have e: "\<forall>k. k \<noteq> ?k \<longrightarrow>
          Map_get (wsClientCache (snd (startGateway sdk options w))) k
            = Map_get (wsClientCache w) k"
    using wf by (simp add: final Map_get_set Map_get_delete)
  have f: "Map_wf (wsClientCache (snd (startGateway sdk options w)))"
    using wf by (simp add: final Map_wf_set Map_wf_delete)
  from startGateway_unfold[of sdk options w] a b c d e wf1 f
    stopGateway_wf[OF wf, of k'] abort_wf[OF wf, of signal]
    receive_wsClientCache[of options clk data w] run_immediate_wsClientCache[of w]
  show ?thesis by blast
qed


theorem C4_startGateway_witness:
  "Map_wf (wsClientCache (scenario_registry Returns Returns))
   \<and> Map_get (wsClientCache (scenario_registry Returns Returns)) (accountId (account scenario_options))
       = Some (scenario_client Returns Returns)
   \<and> Map_get (wsClientCache (snd (startGateway_teardown scenario_options
                                     (scenario_registry Returns Returns))))
         (js ''default'') = None
   \<and> effects (snd (startGateway \<lparr>sdk_close = Returns, sdk_stop = NotAFunction\<rparr>
                      scenario_options (scenario_registry Returns Returns)))
       = [WSClientClose 7, WSClientStart 8, LoggerInfo (js ''logged in to feishu as cli_a1'')]
   \<and> Map_get (wsClientCache (snd (startGateway \<lparr>sdk_close = Returns, sdk_stop = NotAFunction\<rparr>
                      scenario_options (scenario_registry Returns Returns))))
         (js ''default'')
       = Some \<lparr>ws_id = 8, ws_appId = js ''cli_a1'', ws_appSecret = js ''s3'',
                close = Returns, stop = NotAFunction\<rparr>
   \<and> Map_get (wsClientCache (snd (startGateway \<lparr>sdk_close = Returns, sdk_stop = NotAFunction\<rparr>
                      scenario_options (scenario_registry Returns Returns))))
         (js ''other'') = None
   \<and> startGateway_teardown scenario_options initial_world = (Inr (), initial_world)
   \<and> wsClientCache (snd (startGateway \<lparr>sdk_close = Returns, sdk_stop = NotAFunction\<rparr>
                      scenario_options initial_world))
       = [(js ''default'', \<lparr>ws_id = 0, ws_appId = js ''cli_a1'', ws_appSecret = js ''s3'',
                close = Returns, stop = NotAFunction\<rparr>)]"
proof -
  let ?w = "scenario_registry Returns Returns"
  let ?sdk = "\<lparr>sdk_close = Returns, sdk_stop = NotAFunction\<rparr>"
  have wf: "Map_wf (wsClientCache ?w)"
    by (simp add: scenario_registry_def Map_wf_def)
  have wf0: "Map_wf (wsClientCache initial_world)"
    by (simp add: initial_world_def Map_wf_def)
  have old: "Map_get (wsClientCache ?w) (accountId (account scenario_options))
      = Some (scenario_client Returns Returns)"
    by (simp add: scenario_registry_def scenario_options_def)
  have none: "Map_get (wsClientCache initial_world) (accountId (account scenario_options)) = None"
    by (simp add: initial_world_def)
  have other: "js ''other'' \<noteq> accountId (account scenario_options)"
    by (simp add: scenario_options_def)
  note inst = C4_startGateway[OF wf, where options = scenario_options and sdk = ?sdk
      and old = "scenario_client Returns Returns"]
  note inst0 = C4_startGateway[OF wf0, where options = scenario_options and sdk = ?sdk]
  from inst old have gone:
    "Map_get (wsClientCache (snd (startGateway_teardown scenario_options ?w)))
       (accountId (account scenario_options)) = None"
    by blast
  from inst old have eff:
    "effects (snd (startGateway ?sdk scenario_options ?w))
       = effects ?w
         @ (if close (scenario_client Returns Returns) \<noteq> NotAFunction
            then [WSClientClose (ws_id (scenario_client Returns Returns))]
            else if stop (scenario_client Returns Returns) \<noteq> NotAFunction
              then [WSClientStop (ws_id (scenario_client Returns Returns))]
            else [])
         @ WSClientStart (next_id ?w)
           # (if logger scenario_options
              then [LoggerInfo (js ''logged in to feishu as '' @ appId (account scenario_options))]
              else [])"
    by blast
  from inst have new:
    "Map_get (wsClientCache (snd (startGateway ?sdk scenario_options ?w)))
        (accountId (account scenario_options))
       = Some \<lparr>ws_id = next_id ?w, ws_appId = appId (account scenario_options),
                ws_appSecret = appSecret (account scenario_options),
                close = sdk_close ?sdk, stop = sdk_stop ?sdk\<rparr>"
    by blast
  from inst other have oth:
    "Map_get (wsClientCache (snd (startGateway ?sdk scenario_options ?w))) (js ''other'')
       = Map_get (wsClientCache ?w) (js ''other'')"
    by blast
  then have oth': "Map_get (wsClientCache (snd (startGateway ?sdk scenario_options ?w))) (js ''other'')
       = None"
    by (simp add: scenario_registry_def)
  from inst0 none have td0: "startGateway_teardown scenario_options initial_world = (Inr (), initial_world)"
    by blast
  from inst0 have un0: "startGateway ?sdk scenario_options initial_world =
       (Inr (fst (startGateway_connect ?sdk scenario_options
                   (snd (startGateway_teardown scenario_options initial_world)))),
        snd (startGateway_connect ?sdk scenario_options
               (snd (startGateway_teardown scenario_options initial_world))))"
    by blast
  have fin0: "wsClientCache (snd (startGateway ?sdk scenario_options initial_world))
       = [(js ''default'', \<lparr>ws_id = 0, ws_appId = js ''cli_a1'', ws_appSecret = js ''s3'',
                close = Returns, stop = NotAFunction\<rparr>)]"
    unfolding un0 td0
    by (simp add: startGateway_connect_def Let_def logger_info_def emit_def
        scenario_options_def initial_world_def)
  have k: "accountId (account scenario_options) = js ''default''"
    by (simp add: scenario_options_def)
  have a: "Map_get (wsClientCache (snd (startGateway_teardown scenario_options ?w))) (js ''default'') = None"
    using gone by (simp only: k)
  have b: "effects (snd (startGateway ?sdk scenario_options ?w))
       = [WSClientClose 7, WSClientStart 8, LoggerInfo (js ''logged in to feishu as cli_a1'')]"
    unfolding eff
    by (simp add: scenario_registry_def scenario_client_def scenario_options_def initial_world_def)
  have c: "Map_get (wsClientCache (snd (startGateway ?sdk scenario_options ?w))) (js ''default'')
       = Some \<lparr>ws_id = 8, ws_appId = js ''cli_a1'', ws_appSecret = js ''s3'',
                close = Returns, stop = NotAFunction\<rparr>"
    using new unfolding k
    by (simp add: scenario_registry_def scenario_options_def initial_world_def)
  from wf old a b c oth' td0 fin0 show ?thesis by blast
qed

lemma getFeishuClient_cached:
  "Map_get cache (appId acct) = Some client \<Longrightarrow>
   getFeishuClient api acct cache = (Inr client, cache)"
  by (simp add: getFeishuClient_def)

lemma getFeishuClient_constructed:
  "Map_get cache (appId acct) = None \<Longrightarrow> Client_throws api (appId acct) (appSecret acct) = None \<Longrightarrow>
   getFeishuClient api acct cache =
     (Inr \<lparr>client_appId = appId acct, client_appSecret = appSecret acct\<rparr>,
      Map_set cache (appId acct) \<lparr>client_appId = appId acct, client_appSecret = appSecret acct\<rparr>)"
  by (simp add: getFeishuClient_def Let_def)




lemma sendTextMessage_with_client:
  "fst (getFeishuClient api acct cache) = Inr client \<Longrightarrow>
   fst (sendTextMessage api acct chat payload cache) =
     (case message_create api client
             \<lparr>receive_id_type = js ''chat_id'', receive_id = chat,
              create_msg_type = js ''text'', create_content = stringify_text payload\<rparr> of
        Inr result \<Rightarrow>
          if code result = Some 0 then Inr \<lparr>ok = True, error = None\<rparr>
          else Inr \<lparr>ok = False, error = msg result\<rparr>
      | Inl e \<Rightarrow> Inr \<lparr>ok = False, error = Some (String_exn e)\<rparr>)"
  by (cases "getFeishuClient api acct cache")
    (simp add: sendTextMessage_def try_catch_value_def on_result_def split: sum.splits)

lemma replyTextMessage_with_client:
  "fst (getFeishuClient api acct cache) = Inr client \<Longrightarrow>
   fst (replyTextMessage api acct mid payload cache) =
     (case message_reply api client
             \<lparr>path_message_id = mid, reply_msg_type = js ''text'',
              reply_content = stringify_text payload\<rparr> of
        Inr result \<Rightarrow>
          if code result = Some 0 then Inr \<lparr>ok = True, error = None\<rparr>
          else Inr \<lparr>ok = False, error = msg result\<rparr>
      | Inl e \<Rightarrow> Inr \<lparr>ok = False, error = Some (String_exn e)\<rparr>)"
  by (cases "getFeishuClient api acct cache")
    (simp add: replyTextMessage_def try_catch_value_def on_result_def split: sum.splits)

text \<open>
  With a client at hand (cached, or constructed without a throw) both functions return a
  result object whatever the SDK call does.
\<close>

lemma send_contract_with_client:
  assumes "fst (getFeishuClient api acct cache) = Inr client"
  shows "(\<exists>r. fst (sendTextMessage api acct chat payload cache) = Inr r)
    \<and> (\<exists>r. fst (replyTextMessage api acct mid payload cache) = Inr r)"
  using assms
  by (auto simp: sendTextMessage_with_client replyTextMessage_with_client split: sum.splits)

section \<open>The outbound send contract\<close>


lemma channel_onMessage_skip:
  "messageType m \<noteq> js ''text'' \<or> \<not> truthy (message_text m) \<Longrightarrow>
   channel_onMessage api dispatcher acct m cache = (None, [], cache)"
  by (auto simp: channel_onMessage_def)

lemma channel_onMessage_effects_nonempty:
  "fst (snd (channel_onMessage api dispatcher acct m cache)) \<noteq> [] \<Longrightarrow>
   messageType m = js ''text'' \<and> truthy (message_text m)"
  by (rule ccontr) (simp add: channel_onMessage_def)

lemma truthy_message_text:
  "truthy (message_text m) \<Longrightarrow> \<exists>v. text_field m = Some v \<and> v \<noteq> JStr [] \<and> truthy v"
  by (cases "text_field m") (auto simp: message_text_def)

lemma channel_onMessage_dispatches:
  assumes "messageType m = js ''text''" "truthy (message_text m)"
  shows "\<exists>sends. fst (snd (channel_onMessage api dispatcher acct m cache)) =
     ConsoleLog (accountId acct) (message_text m)
     # DispatchReply \<lparr>From = senderId m, Body = message_text m, AccountId = accountId acct,
                       Provider = js ''feishu'', Surface = js ''feishu'',
                       SessionKey = js ''feishu:'' @ accountId acct @ js '':'' @ chatId m,
                       To = chatId m,
                       ChatType = (if chatType m = P2P then js ''direct'' else js ''group'')\<rparr>
     # sends"
  using assms by (simp add: channel_onMessage_def Let_def split: prod.splits)

section \<open>The channel's message filter\<close>

text \<open>
  Claim C10. The \<open>onMessage\<close> callback of the channel calls the reply dispatcher, and
  sends anything, only for a message whose type is \<open>text\<close> and whose text field is present
  and not the empty string. For a message of another type, and for a text message without
  a text field or with an empty one, it returns at once: no console line, no call of the
  dispatcher, no outbound send.
\<close>

theorem C10_onMessage_filter:
  "(messageType m \<noteq> js ''text'' \<longrightarrow>
       channel_onMessage api dispatcher acct m cache = (None, [], cache))
   \<and> (text_field m = None \<longrightarrow>
       channel_onMessage api dispatcher acct m cache = (None, [], cache))
   \<and> (text_field m = Some (JStr []) \<longrightarrow>
       channel_onMessage api dispatcher acct m cache = (None, [], cache))
   \<and> ((\<exists>ctx. DispatchReply ctx \<in> set (fst (snd (channel_onMessage api dispatcher acct m cache))))
        \<longrightarrow> messageType m = js ''text''
            \<and> (\<exists>v. text_field m = Some v \<and> v \<noteq> JStr [] \<and> truthy v))
   \<and> ((\<exists>c t. SendText c t \<in> set (fst (snd (channel_onMessage api dispatcher acct m cache))))
        \<longrightarrow> messageType m = js ''text''
            \<and> (\<exists>v. text_field m = Some v \<and> v \<noteq> JStr [] \<and> truthy v))
   \<and> (messageType m = js ''text'' \<and> text_field m = Some (JStr s) \<and> s \<noteq> [] \<longrightarrow>
        DispatchReply \<lparr>From = senderId m, Body = JStr s, AccountId = accountId acct,
                        Provider = js ''feishu'', Surface = js ''feishu'',
                        SessionKey = js ''feishu:'' @ accountId acct @ js '':'' @ chatId m,
                        To = chatId m,
                        ChatType = (if chatType m = P2P then js ''direct'' else js ''group'')\<rparr>
          \<in> set (fst (snd (channel_onMessage api dispatcher acct m cache))))"
proof (intro conjI impI)
  assume "messageType m \<noteq> js ''text''"
  then show "channel_onMessage api dispatcher acct m cache = (None, [], cache)"
    by (simp add: channel_onMessage_skip)
next
  assume "text_field m = None"
  then show "channel_onMessage api dispatcher acct m cache = (None, [], cache)"
    by (simp add: channel_onMessage_skip message_text_def)
next
  assume "text_field m = Some (JStr [])"
  then show "channel_onMessage api dispatcher acct m cache = (None, [], cache)"
    by (simp add: channel_onMessage_skip message_text_def)
next
  assume "\<exists>ctx. DispatchReply ctx \<in> set (fst (snd (channel_onMessage api dispatcher acct m cache)))"
  then have ne: "fst (snd (channel_onMessage api dispatcher acct m cache)) \<noteq> []" by auto
  from channel_onMessage_effects_nonempty[OF ne]
  show "messageType m = js ''text''" by simp
  from channel_onMessage_effects_nonempty[OF ne]
  show "\<exists>v. text_field m = Some v \<and> v \<noteq> JStr [] \<and> truthy v"
    by (simp add: truthy_message_text)
next
  assume "\<exists>c t. SendText c t \<in> set (fst (snd (channel_onMessage api dispatcher acct m cache)))"
  then have ne: "fst (snd (channel_onMessage api dispatcher acct m cache)) \<noteq> []" by auto
  from channel_onMessage_effects_nonempty[OF ne]
  show "messageType m = js ''text''" by simp
  from channel_onMessage_effects_nonempty[OF ne]
  show "\<exists>v. text_field m = Some v \<and> v \<noteq> JStr [] \<and> truthy v"
    by (simp add: truthy_message_text)
next
  assume a: "messageType m = js ''text'' \<and> text_field m = Some (JStr s) \<and> s \<noteq> []"
  then have t: "message_text m = JStr s" by (simp add: message_text_def)
  with a have "truthy (message_text m)" by simp
  from channel_onMessage_dispatches[OF conjunct1[OF a] this, of api dispatcher acct cache] t
  show "DispatchReply \<lparr>From = senderId m, Body = JStr s, AccountId = accountId acct,
                        Provider = js ''feishu'', Surface = js ''feishu'',
                        SessionKey = js ''feishu:'' @ accountId acct @ js '':'' @ chatId m,
                        To = chatId m,
                        ChatType = (if chatType m = P2P then js ''direct'' else js ''group'')\<rparr>
          \<in> set (fst (snd (channel_onMessage api dispatcher acct m cache)))"
    by auto
qed

theorem C10_onMessage_filter_witness:
  "channel_onMessage (scenario_api (Inr \<lparr>code = Some 0, msg = None\<rparr>))
       (\<lambda>ctx. ([Some (js ''pong'')], None)) scenario_account
       (scenario_message (js ''image'') (Some (JStr (js ''ping'')))) []
     = (None, [], [])
   \<and> channel_onMessage (scenario_api (Inr \<lparr>code = Some 0, msg = None\<rparr>))
       (\<lambda>ctx. ([Some (js ''pong'')], None)) scenario_account
       (scenario_message (js ''text'') None) []
     = (None, [], [])
   \<and> channel_onMessage (scenario_api (Inr \<lparr>code = Some 0, msg = None\<rparr>))
       (\<lambda>ctx. ([Some (js ''pong'')], None)) scenario_account
       (scenario_message (js ''text'') (Some (JStr []))) []
     = (None, [], [])
   \<and> DispatchReply \<lparr>From = js ''ou_1'', Body = JStr (js ''ping''), AccountId = js ''default'',
                        Provider = js ''feishu'', Surface = js ''feishu'',
                        SessionKey = js ''feishu:default:oc_1'', To = js ''oc_1'',
                        ChatType = js ''direct''\<rparr>
       \<in> set (fst (snd (channel_onMessage (scenario_api (Inr \<lparr>code = Some 0, msg = None\<rparr>))
               (\<lambda>ctx. ([Some (js ''pong'')], None)) scenario_account
               (scenario_message (js ''text'') (Some (JStr (js ''ping'')))) [])))
   \<and> fst (snd (channel_onMessage (scenario_api (Inr \<lparr>code = Some 0, msg = None\<rparr>))
       (\<lambda>ctx. ([Some (js ''pong'')], None)) scenario_account
       (scenario_message (js ''text'') (Some (JStr (js ''ping'')))) []))
     = [ConsoleLog (js ''default'') (JStr (js ''ping'')),
        DispatchReply \<lparr>From = js ''ou_1'', Body = JStr (js ''ping''), AccountId = js ''default'',
                        Provider = js ''feishu'', Surface = js ''feishu'',
                        SessionKey = js ''feishu:default:oc_1'', To = js ''oc_1'',
                        ChatType = js ''direct''\<rparr>,
        SendText (js ''oc_1'') (js ''pong'')]
   \<and> messageType (scenario_message (js ''text'') (Some (JStr (js ''ping'')))) = js ''text''
   \<and> (\<exists>v. text_field (scenario_message (js ''text'') (Some (JStr (js ''ping'')))) = Some v
          \<and> v \<noteq> JStr [] \<and> truthy v)"
proof -
  let ?api = "scenario_api (Inr \<lparr>code = Some 0, msg = None\<rparr>)"
  let ?d = "\<lambda>ctx::MsgContext. ([Some (js ''pong'')], None :: js_exn option)"
  let ?ping = "scenario_message (js ''text'') (Some (JStr (js ''ping'')))"
  note inst = C10_onMessage_filter[where api = ?api and dispatcher = ?d
      and acct = scenario_account and cache = "[]"]
  have 1: "channel_onMessage ?api ?d scenario_account
       (scenario_message (js ''image'') (Some (JStr (js ''ping'')))) [] = (None, [], [])"
    using inst[where m = "scenario_message (js ''image'') (Some (JStr (js ''ping'')))"]
    by (simp add: scenario_message_def)
  have 2: "channel_onMessage ?api ?d scenario_account
       (scenario_message (js ''text'') None) [] = (None, [], [])"
    using inst[where m = "scenario_message (js ''text'') None"]
    by (simp add: scenario_message_def)
  have 3: "channel_onMessage ?api ?d scenario_account
       (scenario_message (js ''text'') (Some (JStr []))) [] = (None, [], [])"
    using inst[where m = "scenario_message (js ''text'') (Some (JStr []))"]
    by (simp add: scenario_message_def)
  have pre: "messageType ?ping = js ''text'' \<and> text_field ?ping = Some (JStr (js ''ping''))
      \<and> js ''ping'' \<noteq> []"
    by (simp add: scenario_message_def)
  from inst[where m = ?ping and s = "js ''ping''"] pre
  have 4: "DispatchReply \<lparr>From = senderId ?ping, Body = JStr (js ''ping''),
                          AccountId = accountId scenario_account,
                          Provider = js ''feishu'', Surface = js ''feishu'',
                          SessionKey = js ''feishu:'' @ accountId scenario_account @ js '':''
                                         @ chatId ?ping,
                          To = chatId ?ping,
                          ChatType = (if chatType ?ping = P2P then js ''direct'' else js ''group'')\<rparr>
       \<in> set (fst (snd (channel_onMessage ?api ?d scenario_account ?ping [])))"
    by blast
  then have d4: "DispatchReply \<lparr>From = js ''ou_1'', Body = JStr (js ''ping''), AccountId = js ''default'',
                        Provider = js ''feishu'', Surface = js ''feishu'',
                        SessionKey = js ''feishu:default:oc_1'', To = js ''oc_1'',
                        ChatType = js ''direct''\<rparr>
       \<in> set (fst (snd (channel_onMessage ?api ?d scenario_account ?ping [])))"
    by (simp add: scenario_message_def scenario_account_def)
  then have ex: "\<exists>ctx. DispatchReply ctx
       \<in> set (fst (snd (channel_onMessage ?api ?d scenario_account ?ping [])))"
    by blast
  from inst[where m = ?ping] ex
  have 5: "messageType ?ping = js ''text''
      \<and> (\<exists>v. text_field ?ping = Some v \<and> v \<noteq> JStr [] \<and> truthy v)"
    by blast
  have 6: "fst (snd (channel_onMessage ?api ?d scenario_account ?ping []))
     = [ConsoleLog (js ''default'') (JStr (js ''ping'')),
        DispatchReply \<lparr>From = js ''ou_1'', Body = JStr (js ''ping''), AccountId = js ''default'',
                        Provider = js ''feishu'', Surface = js ''feishu'',
                        SessionKey = js ''feishu:default:oc_1'', To = js ''oc_1'',
                        ChatType = js ''direct''\<rparr>,
        SendText (js ''oc_1'') (js ''pong'')]"
    by (simp add: channel_onMessage_def message_text_def scenario_message_def
        scenario_account_def scenario_api_def or_empty_def sendTextMessage_def
        getFeishuClient_def Let_def)
  from 1 2 3 d4 5 6 show ?thesis by blast
qed

end
